theory Spec2Isabelle
  imports Main "HOL-Library.Word"
begin

section \<open>JavaScript strings\<close>

text \<open>
  The client is \<^verbatim>\<open>public/script.js\<close>. A JavaScript string is a sequence of 16-bit code
  units, and every string operation of the script (\<^verbatim>\<open>startsWith\<close>, \<^verbatim>\<open>trim\<close>, the two
  \<^verbatim>\<open>replace\<close> calls, the serialisation behind \<^verbatim>\<open>innerHTML\<close>) works code unit by code
  unit, so strings are lists of 16-bit words. \<open>js\<close> writes an ASCII literal of the
  script as such a list.
\<close>

type_synonym jschar = "16 word"
type_synonym jsstring = "jschar list"

definition js :: "string \<Rightarrow> jsstring" where
  "js s = map of_char s"

text \<open>\<^verbatim>\<open>s.startsWith(p)\<close>.\<close>

definition startsWith :: "jsstring \<Rightarrow> jsstring \<Rightarrow> bool" where
  "startsWith s p \<longleftrightarrow> take (length p) s = p"

text \<open>
  The characters \<^verbatim>\<open>String.prototype.trim\<close> strips: the white space and line
  terminator code points of ECMAScript.
\<close>

definition isTrimmed :: "jschar \<Rightarrow> bool" where
  "isTrimmed c \<longleftrightarrow>
     c = 0x09 \<or> c = 0x0A \<or> c = 0x0B \<or> c = 0x0C \<or> c = 0x0D \<or> c = 0x20 \<or> c = 0xA0
     \<or> c = 0x1680 \<or> (0x2000 \<le> c \<and> c \<le> 0x200A) \<or> c = 0x2028 \<or> c = 0x2029
     \<or> c = 0x202F \<or> c = 0x205F \<or> c = 0x3000 \<or> c = 0xFEFF"

definition trim :: "jsstring \<Rightarrow> jsstring" where
  "trim s = rev (dropWhile isTrimmed (rev (dropWhile isTrimmed s)))"

text \<open>The characters the regular expression atom \<^verbatim>\<open>.\<close> does not match (no \<^verbatim>\<open>s\<close> flag).\<close>

definition isLineTerminator :: "jschar \<Rightarrow> bool" where
  "isLineTerminator c \<longleftrightarrow> c = 0x0A \<or> c = 0x0D \<or> c = 0x2028 \<or> c = 0x2029"

text \<open>The decimal digits of a number, as a template literal prints an integer.\<close>

function showNat :: "nat \<Rightarrow> jsstring" where
  "showNat n = (if n < 10 then [of_nat (48 + n)] else showNat (n div 10) @ [of_nat (48 + n mod 10)])"
  by pat_completeness auto
termination
  by (relation "measure id") auto

declare showNat.simps [simp del]

section \<open>Message rendering\<close>

text \<open>
  \<^verbatim>\<open>escapeHtml(text)\<close> assigns the text to \<^verbatim>\<open>textContent\<close> of a fresh element and reads
  \<^verbatim>\<open>innerHTML\<close> back: the serialisation of one text node, which replaces the
  ampersand, the no-break space and the two angle brackets by character references and
  leaves every other code unit as it is.
\<close>

definition escapeChar :: "jschar \<Rightarrow> jsstring" where
  "escapeChar c =
     (if c = 0x26 then js ''&amp;''
      else if c = 0xA0 then js ''&nbsp;''
      else if c = 0x3C then js ''&lt;''
      else if c = 0x3E then js ''&gt;''
      else [c])"

definition escapeHtml :: "jsstring \<Rightarrow> jsstring" where
  "escapeHtml t = concat (map escapeChar t)"

text \<open>
  \<^verbatim>\<open>formatted.replace(/\*\*(.*?)\*\*/g, '<strong>$1</strong>')\<close>. After an opening
  \<^verbatim>\<open>**\<close>, \<open>boldClose\<close> is the lazy \<^verbatim>\<open>(.*?)\*\*\<close>: it takes the shortest run of
  characters other than line terminators that is followed by \<^verbatim>\<open>**\<close>, and gives the
  captured run and what follows the closing \<^verbatim>\<open>**\<close>. \<open>replaceBold\<close> is the global
  replacement: the leftmost match is replaced and the search goes on after it; where no
  match starts the character is kept.
\<close>

fun boldClose :: "jsstring \<Rightarrow> (jsstring \<times> jsstring) option" where
  "boldClose (c # d # ds) =
     (if c = 0x2A \<and> d = 0x2A then Some ([], ds)
      else if isLineTerminator c then None
      else (case boldClose (d # ds) of
              None \<Rightarrow> None
            | Some (cap, rest) \<Rightarrow> Some (c # cap, rest)))"
| "boldClose _ = None"

lemma boldClose_shorter:
  "boldClose xs = Some (cap, rest) \<Longrightarrow> length rest < length xs"
  by (induction xs arbitrary: cap rest rule: boldClose.induct)
     (auto split: if_splits option.splits)

function (sequential) replaceBold :: "jsstring \<Rightarrow> jsstring" where
  "replaceBold (c # d # ds) =
     (if c = 0x2A \<and> d = 0x2A then
        (case boldClose ds of
           Some (cap, rest) \<Rightarrow> js ''<strong>'' @ cap @ js ''</strong>'' @ replaceBold rest
         | None \<Rightarrow> c # replaceBold (d # ds))
      else c # replaceBold (d # ds))"
| "replaceBold cs = cs"
  by pat_completeness auto
termination
  by (relation "measure length") (auto dest: boldClose_shorter)

text \<open>\<^verbatim>\<open>formatted.replace(/\n/g, '<br>')\<close>.\<close>

definition replaceNewlines :: "jsstring \<Rightarrow> jsstring" where
  "replaceNewlines s = concat (map (\<lambda>c. if c = 0x0A then js ''<br>'' else [c]) s)"

definition formatMessageText :: "jsstring \<Rightarrow> jsstring" where
  "formatMessageText t = replaceNewlines (replaceBold (escapeHtml t))"

text \<open>
  Markup that carries nothing of the message: a string made of characters other than the
  angle brackets and of the three tags the formatter writes itself. \<open>angleFree\<close> is
  the stronger property of a string without any angle bracket.
\<close>

function inert :: "jsstring \<Rightarrow> bool" where
  "inert s =
     (if s = [] then True
      else if startsWith s (js ''<strong>'') then inert (drop 8 s)
      else if startsWith s (js ''</strong>'') then inert (drop 9 s)
      else if startsWith s (js ''<br>'') then inert (drop 4 s)
      else hd s \<noteq> 0x3C \<and> hd s \<noteq> 0x3E \<and> inert (tl s))"
  by pat_completeness auto
termination
  by (relation "measure length") auto

declare inert.simps [simp del]

definition angleFree :: "jsstring \<Rightarrow> bool" where
  "angleFree s \<longleftrightarrow> 0x3C \<notin> set s \<and> 0x3E \<notin> set s"

section \<open>JavaScript values\<close>

text \<open>
  The values \<^verbatim>\<open>response.json()\<close> can give, and \<^verbatim>\<open>undefined\<close> for what a property
  read gives where there is nothing. A number is held by the string that
  \<^verbatim>\<open>String(n)\<close> prints for it: the script only tests a number for truth and prints it.
  An object is held by its own properties, one pair for each key.
\<close>

datatype jsval =
    JUndefined
  | JNull
  | JBool bool
  | JNum jsstring
  | JStr jsstring
  | JArr "jsval list"
  | JObj "(jsstring \<times> jsval) list"

text \<open>What \<^verbatim>\<open>if (v)\<close> and \<^verbatim>\<open>v || d\<close> test.\<close>

fun truthy :: "jsval \<Rightarrow> bool" where
  "truthy JUndefined = False"
| "truthy JNull = False"
| "truthy (JBool b) = b"
| "truthy (JNum n) = (n \<noteq> js ''0'' \<and> n \<noteq> js ''NaN'')"
| "truthy (JStr s) = (s \<noteq> [])"
| "truthy (JArr xs) = True"
| "truthy (JObj kvs) = True"

text \<open>What \<^verbatim>\<open>?.\<close> tests.\<close>

fun nullish :: "jsval \<Rightarrow> bool" where
  "nullish JUndefined = True"
| "nullish JNull = True"
| "nullish v = False"

fun joinComma :: "jsstring list \<Rightarrow> jsstring" where
  "joinComma [] = []"
| "joinComma [x] = x"
| "joinComma (x # y # ys) = x @ js '','' @ joinComma (y # ys)"

text \<open>
  The conversion to a string that the \<^verbatim>\<open>Error\<close> constructor and the \<^verbatim>\<open>textContent\<close>
  setter apply to a value; \<open>None\<close> where it throws a \<^verbatim>\<open>TypeError\<close>. An object is
  converted by its \<^verbatim>\<open>toString\<close> method: the one of \<^verbatim>\<open>Object.prototype\<close>, unless the
  object has a key \<^verbatim>\<open>toString\<close> of its own, whose value, read from a response, is no
  function; then the conversion falls back on \<^verbatim>\<open>valueOf\<close>, which is no function
  either or gives the object back, and throws. An array joins the conversions of its
  elements, \<^verbatim>\<open>null\<close> counting as the empty string, and throws where one of them does.
\<close>

fun toString :: "jsval \<Rightarrow> jsstring option" where
  "toString JUndefined = Some (js ''undefined'')"
| "toString JNull = Some (js ''null'')"
| "toString (JBool b) = Some (if b then js ''true'' else js ''false'')"
| "toString (JNum n) = Some n"
| "toString (JStr s) = Some s"
| "toString (JArr xs) =
     map_option joinComma (those (map (\<lambda>v. if nullish v then Some [] else toString v) xs))"
| "toString (JObj kvs) =
     (if map_of kvs (js ''toString'') = None then Some (js ''[object Object]'') else None)"

text \<open>
  The \<^verbatim>\<open>TypeError\<close>s the script can run into: reading a property of \<^verbatim>\<open>null\<close>, and
  converting to a string an object that does not convert. The engine words their
  messages, so the model takes the wording as a function of this type.
\<close>

datatype typeError = NullRead jsstring | NotPrimitive

text \<open>
  \<^verbatim>\<open>v.k\<close> on a value that is neither \<^verbatim>\<open>null\<close> nor \<^verbatim>\<open>undefined\<close>, for a name \<open>k\<close>
  that no built-in prototype defines (the script reads \<^verbatim>\<open>choices\<close>, \<^verbatim>\<open>message\<close>,
  \<^verbatim>\<open>content\<close> and \<^verbatim>\<open>error\<close>): only an object can have it.
\<close>

fun getProp :: "jsval \<Rightarrow> jsstring \<Rightarrow> jsval" where
  "getProp (JObj kvs) k = (case map_of kvs k of Some v \<Rightarrow> v | None \<Rightarrow> JUndefined)"
| "getProp v k = JUndefined"

text \<open>\<^verbatim>\<open>v[0]\<close> on a value that is neither \<^verbatim>\<open>null\<close> nor \<^verbatim>\<open>undefined\<close>.\<close>

fun index0 :: "jsval \<Rightarrow> jsval" where
  "index0 (JArr (x # xs)) = x"
| "index0 (JStr (c # cs)) = JStr [c]"
| "index0 (JObj kvs) = (case map_of kvs (js ''0'') of Some v \<Rightarrow> v | None \<Rightarrow> JUndefined)"
| "index0 v = JUndefined"

text \<open>\<^verbatim>\<open>v?.k\<close> and \<^verbatim>\<open>v?.[0]\<close>.\<close>

definition optProp :: "jsval \<Rightarrow> jsstring \<Rightarrow> jsval" where
  "optProp v k = (if nullish v then JUndefined else getProp v k)"

definition optIndex0 :: "jsval \<Rightarrow> jsval" where
  "optIndex0 v = (if nullish v then JUndefined else index0 v)"

section \<open>The state of the client\<close>

text \<open>\<^verbatim>\<open>currentImage\<close>: \<^verbatim>\<open>{ base64, mimeType }\<close>.\<close>

record image =
  base64 :: jsstring
  mimeType :: jsstring

datatype role = User | Assistant

text \<open>
  One part of a message: \<^verbatim>\<open>{ type: 'text', text }\<close> or
  \<^verbatim>\<open>{ type: 'image_url', image_url: { url } }\<close>. The text of an assistant part is
  whatever value the response carried.
\<close>

datatype contentPart = TextPart jsval | ImageUrlPart jsstring

record entry =
  role :: role
  content :: "contentPart list"

text \<open>
  The children of \<^verbatim>\<open>messagesArea\<close>. \<open>Welcome\<close> is the element the page is loaded
  with, which the constant \<^verbatim>\<open>welcomeMessage\<close> refers to; \<open>WelcomeRestored\<close> is the
  element \<^verbatim>\<open>clearChat\<close> builds from \<^verbatim>\<open>welcomeHtml\<close>. A message carries its role, the
  source of its image when it has one and the \<^verbatim>\<open>innerHTML\<close> of its text bubble when it
  has one; an error bubble carries the \<^verbatim>\<open>innerHTML\<close> of its text.
\<close>

datatype element =
    Welcome
  | WelcomeRestored
  | Message role "jsstring option" "jsstring option"
  | TypingIndicator
  | ErrorBubble jsstring

text \<open>A \<^verbatim>\<open>File\<close>: \<^verbatim>\<open>file.type\<close> and \<^verbatim>\<open>file.size\<close>.\<close>

record jsFile =
  fileType :: jsstring
  fileSize :: nat

text \<open>
  What \<^verbatim>\<open>response.json()\<close> settles to: a rejection with the message of its error, or
  the parsed value. A response has its status and this body; \<^verbatim>\<open>response.ok\<close> is the
  status being in the range 200 to 299. \<^verbatim>\<open>fetch\<close> itself settles to a rejection with
  the message of its error, or to a response.
\<close>

datatype jsonResult = JsonRejected jsstring | Json jsval

record response =
  status :: nat
  jsonBody :: jsonResult

definition ok :: "response \<Rightarrow> bool" where
  "ok r \<longleftrightarrow> 200 \<le> status r \<and> status r \<le> 299"

datatype fetchOutcome = FetchRejected jsstring | FetchResolved response

text \<open>The request \<^verbatim>\<open>fetch\<close> sends: its address and the \<^verbatim>\<open>messages\<close> of its body.\<close>

record request =
  url :: jsstring
  messages :: "entry list"

text \<open>
  The variables of the script and the properties of the page it reads and writes. The
  last three fields are the work the script has started and not yet heard of: the files
  a \<^verbatim>\<open>FileReader\<close> is reading, the requests of the calls of \<^verbatim>\<open>sendMessage\<close>
  suspended at \<^verbatim>\<open>await fetch(...)\<close>, and the responses of the calls suspended at
  \<^verbatim>\<open>await response.json()\<close>. Scroll position, focus and the height of the text area
  are layout and are left out.
\<close>

record client =
  currentImage :: "image option"
  isLoading :: bool
  messageHistory :: "entry list"
  messagesArea :: "element list"
  messageInput :: jsstring
  previewImageSrc :: jsstring
  fileInputValue :: jsstring
  imagePreviewVisible :: bool
  dropZoneVisible :: bool
  sendBtnDisabled :: bool
  dragCounter :: int
  reading :: "jsFile list"
  fetching :: "request list"
  parsing :: "response list"

section \<open>Image handling\<close>

text \<open>
  \<^verbatim>\<open>showErrorMessage(errorText)\<close> appends an error bubble whose text is the escaped
  message.
\<close>

definition showErrorMessage :: "jsstring \<Rightarrow> client \<Rightarrow> client" where
  "showErrorMessage errorText s =
     s\<lparr>messagesArea := messagesArea s @ [ErrorBubble (escapeHtml errorText)]\<rparr>"

definition showImagePreview :: "jsstring \<Rightarrow> client \<Rightarrow> client" where
  "showImagePreview base64Data s =
     s\<lparr>previewImageSrc := base64Data, imagePreviewVisible := True\<rparr>"

definition removeImage :: "client \<Rightarrow> client" where
  "removeImage s =
     s\<lparr>currentImage := None, previewImageSrc := [], fileInputValue := [],
       imagePreviewVisible := False\<rparr>"

text \<open>
  The three ways attaching an image fails. The script reports each by an error bubble:
  \<open>InvalidFileType\<close> by \<^verbatim>\<open>Please select a valid image file.\<close>, \<open>FileTooLarge\<close> by
  \<^verbatim>\<open>Image size must be less than 10MB.\<close>, \<open>ReadError\<close> by
  \<^verbatim>\<open>Failed to read image file.\<close>
\<close>

datatype attachError = InvalidFileType | FileTooLarge | ReadError

definition maxSize :: nat where
  "maxSize = 10 * 1024 * 1024"

text \<open>
  \<^verbatim>\<open>handleImageFile(file)\<close> up to its return: the error it stopped at, if any, and the
  state. An accepted file is handed to a \<^verbatim>\<open>FileReader\<close>, whose \<^verbatim>\<open>onload\<close> and
  \<^verbatim>\<open>onerror\<close> handlers run later.
\<close>

definition handleImageFile :: "jsFile \<Rightarrow> client \<Rightarrow> attachError option \<times> client" where
  "handleImageFile f s =
     (if \<not> startsWith (fileType f) (js ''image/'') then
        (Some InvalidFileType, showErrorMessage (js ''Please select a valid image file.'') s)
      else if fileSize f > maxSize then
        (Some FileTooLarge, showErrorMessage (js ''Image size must be less than 10MB.'') s)
      else (None, s\<lparr>reading := reading s @ [f]\<rparr>))"

text \<open>\<^verbatim>\<open>reader.onload\<close> for the file \<open>f\<close>, with \<^verbatim>\<open>e.target.result\<close>.\<close>

definition readerOnload :: "jsFile \<Rightarrow> jsstring \<Rightarrow> client \<Rightarrow> client" where
  "readerOnload f base64Data s =
     showImagePreview base64Data
       (s\<lparr>currentImage := Some \<lparr>base64 = base64Data, mimeType = fileType f\<rparr>\<rparr>)"

text \<open>\<^verbatim>\<open>reader.onerror\<close>.\<close>

definition readerOnerror :: "client \<Rightarrow> client" where
  "readerOnerror s = showErrorMessage (js ''Failed to read image file.'') s"

section \<open>Drag and drop\<close>

definition showDropZone :: "client \<Rightarrow> client" where
  "showDropZone s = s\<lparr>dropZoneVisible := True\<rparr>"

definition hideDropZone :: "client \<Rightarrow> client" where
  "hideDropZone s = s\<lparr>dropZoneVisible := False\<rparr>"

text \<open>\<^verbatim>\<open>handleDrop(dataTransfer)\<close>, given \<^verbatim>\<open>dataTransfer.files\<close>.\<close>

definition handleDrop :: "jsFile list \<Rightarrow> client \<Rightarrow> client" where
  "handleDrop files s =
     (let s1 = hideDropZone s in
      case files of
        [] \<Rightarrow> s1
      | f # fs \<Rightarrow>
          if startsWith (fileType f) (js ''image/'') then snd (handleImageFile f s1) else s1)"

section \<open>Sending a message\<close>

text \<open>
  \<^verbatim>\<open>createMessageElement(role, text, imageUrl)\<close>: the image is there when \<^verbatim>\<open>imageUrl\<close>
  is true, the bubble when \<^verbatim>\<open>text\<close> is. The bubble holds the formatted text, which
  \<^verbatim>\<open>escapeHtml\<close> first converts to a string by assigning it to \<^verbatim>\<open>textContent\<close>;
  \<open>None\<close> where that conversion throws.
\<close>

definition createMessageElement :: "role \<Rightarrow> jsval \<Rightarrow> jsstring option \<Rightarrow> element option" where
  "createMessageElement r t imageUrl =
     (let img = (case imageUrl of None \<Rightarrow> None | Some u \<Rightarrow> if u \<noteq> [] then Some u else None) in
      if truthy t then
        (case toString t of
           None \<Rightarrow> None
         | Some shown \<Rightarrow> Some (Message r img (Some (formatMessageText shown))))
      else Some (Message r img None))"

definition showTypingIndicator :: "client \<Rightarrow> client" where
  "showTypingIndicator s = s\<lparr>messagesArea := messagesArea s @ [TypingIndicator]\<rparr>"

text \<open>
  \<^verbatim>\<open>removeTypingIndicator()\<close> removes the first element with the id
  \<^verbatim>\<open>typingIndicator\<close>, if there is one.
\<close>

definition removeTypingIndicator :: "client \<Rightarrow> client" where
  "removeTypingIndicator s = s\<lparr>messagesArea := remove1 TypingIndicator (messagesArea s)\<rparr>"

text \<open>
  \<^verbatim>\<open>removeWelcomeMessage()\<close> detaches the element \<^verbatim>\<open>welcomeMessage\<close> was bound to
  when the script was loaded.
\<close>

definition removeWelcomeMessage :: "client \<Rightarrow> client" where
  "removeWelcomeMessage s = s\<lparr>messagesArea := remove1 Welcome (messagesArea s)\<rparr>"

text \<open>
  \<^verbatim>\<open>sendMessage(text, image)\<close> up to \<^verbatim>\<open>await fetch(...)\<close>, where the call is
  suspended with its request sent. The user message is created outside the \<^verbatim>\<open>try\<close>
  block, where a throw would end the call; its text is a string, which always converts.
\<close>

definition sendMessage :: "jsstring \<Rightarrow> image option \<Rightarrow> client \<Rightarrow> client" where
  "sendMessage t img s =
     (if isLoading s then s
      else
        let s1 = removeWelcomeMessage s;
            parts = (if t \<noteq> [] then [TextPart (JStr t)] else [])
                    @ (case img of None \<Rightarrow> [] | Some i \<Rightarrow> [ImageUrlPart (base64 i)])
        in case createMessageElement User (JStr t) (map_option base64 img) of
             None \<Rightarrow> s1
           | Some userMessage \<Rightarrow>
               let s2 = s1\<lparr>messagesArea := messagesArea s1 @ [userMessage]\<rparr>;
                   s3 = s2\<lparr>messageHistory := messageHistory s2
                           @ [\<lparr>role = User, content = parts\<rparr>]\<rparr>;
                   s4 = removeImage (s3\<lparr>messageInput := []\<rparr>);
                   s5 = showTypingIndicator (s4\<lparr>isLoading := True, sendBtnDisabled := True\<rparr>)
               in s5\<lparr>fetching := fetching s5
                         @ [\<lparr>url = js ''/api/chat'', messages = messageHistory s5\<rparr>]\<rparr>)"

text \<open>The \<^verbatim>\<open>finally\<close> block, and the \<^verbatim>\<open>catch\<close> block followed by it.\<close>

definition finallyBlock :: "client \<Rightarrow> client" where
  "finallyBlock s = s\<lparr>isLoading := False, sendBtnDisabled := False\<rparr>"

definition catchBlock :: "jsstring \<Rightarrow> client \<Rightarrow> client" where
  "catchBlock message s =
     finallyBlock
       (showErrorMessage (js ''Failed to send message: '' @ message) (removeTypingIndicator s))"

text \<open>
  \<^verbatim>\<open>sendMessage\<close> from the settling of \<^verbatim>\<open>fetch\<close> on. A rejection goes to the
  \<^verbatim>\<open>catch\<close> block. On a response the typing indicator is removed and the call is
  suspended again, at \<^verbatim>\<open>await response.json()\<close> (on either side of the test of
  \<^verbatim>\<open>response.ok\<close>).
\<close>

definition sendMessageFetched :: "fetchOutcome \<Rightarrow> client \<Rightarrow> client" where
  "sendMessageFetched outcome s =
     (case outcome of
        FetchRejected message \<Rightarrow> catchBlock message s
      | FetchResolved r \<Rightarrow>
          (let s1 = removeTypingIndicator s in s1\<lparr>parsing := parsing s1 @ [r]\<rparr>))"

text \<open>
  \<^verbatim>\<open>data.choices?.[0]?.message?.content || 'No response received.'\<close> for a \<^verbatim>\<open>data\<close>
  that is neither \<^verbatim>\<open>null\<close> nor \<^verbatim>\<open>undefined\<close>.
\<close>

definition assistantContent :: "jsval \<Rightarrow> jsval" where
  "assistantContent d =
     (let c = optProp (optProp (optIndex0 (getProp d (js ''choices''))) (js ''message''))
                (js ''content'')
      in if truthy c then c else JStr (js ''No response received.''))"

text \<open>
  \<^verbatim>\<open>sendMessage\<close> from the settling of \<^verbatim>\<open>response.json()\<close> on. \<open>typeErrorMessage\<close>
  gives the message of a \<^verbatim>\<open>TypeError\<close>. With a status outside 200 to 299 a body that
  does not parse counts as \<^verbatim>\<open>{}\<close>, and the error thrown carries \<^verbatim>\<open>errorData.error\<close>
  converted to a string, or the status. Otherwise a body that does not parse, or is
  \<^verbatim>\<open>null\<close>, throws; any other body gives the assistant content, which is pushed to the
  history before its message is created, so that a content that does not convert to a
  string throws with the entry already pushed. Every throw is caught by the
  \<^verbatim>\<open>catch\<close> block.
\<close>

definition sendMessageParsed :: "(typeError \<Rightarrow> jsstring) \<Rightarrow> response \<Rightarrow> client \<Rightarrow> client" where
  "sendMessageParsed typeErrorMessage r s =
     (if \<not> ok r then
        (let errorData = (case jsonBody r of JsonRejected m \<Rightarrow> JObj [] | Json v \<Rightarrow> v) in
         if nullish errorData then catchBlock (typeErrorMessage (NullRead (js ''error''))) s
         else
           let e = getProp errorData (js ''error'') in
           if truthy e then
             (case toString e of
                None \<Rightarrow> catchBlock (typeErrorMessage NotPrimitive) s
              | Some message \<Rightarrow> catchBlock message s)
           else catchBlock (js ''Request failed with status '' @ showNat (status r)) s)
      else
        (case jsonBody r of
           JsonRejected m \<Rightarrow> catchBlock m s
         | Json d \<Rightarrow>
             if nullish d then catchBlock (typeErrorMessage (NullRead (js ''choices''))) s
             else
               let a = assistantContent d;
                   s1 = s\<lparr>messageHistory := messageHistory s
                           @ [\<lparr>role = Assistant, content = [TextPart a]\<rparr>]\<rparr>
               in case createMessageElement Assistant a None of
                    None \<Rightarrow> catchBlock (typeErrorMessage NotPrimitive) s1
                  | Some assistantMessage \<Rightarrow>
                      finallyBlock
                        (s1\<lparr>messagesArea := messagesArea s1 @ [assistantMessage]\<rparr>)))"

section \<open>Clearing the chat and submitting\<close>

definition clearChat :: "client \<Rightarrow> client" where
  "clearChat s =
     (let s1 = s\<lparr>messageHistory := []\<rparr>;
          s2 = s1\<lparr>messagesArea := []\<rparr>;
          s3 = s2\<lparr>messagesArea := [WelcomeRestored]\<rparr>;
          s4 = removeImage s3
      in s4\<lparr>messageInput := []\<rparr>)"

definition handleSubmit :: "client \<Rightarrow> client" where
  "handleSubmit s =
     (let t = trim (messageInput s) in
      if t = [] \<and> currentImage s = None then s
      else sendMessage t (currentImage s) s)"

section \<open>The event loop\<close>

text \<open>
  What can happen to the page, one handler at a time: the user edits the text area,
  submits (the send button or Enter), clears the chat, removes the image, picks files
  (the browser has set the value of the file input), drags files in or out of the page,
  drops files; a file reader, a \<^verbatim>\<open>fetch\<close> or a \<^verbatim>\<open>response.json()\<close> that was started
  settles, named by its position among those outstanding.
\<close>

datatype event =
    InputText jsstring
  | Submit
  | ClearChat
  | RemoveImage
  | FileChange jsstring "jsFile list"
  | DragEnter bool
  | DragLeave
  | Drop "jsFile list"
  | ReaderLoad nat jsstring
  | ReaderError nat
  | FetchSettled nat fetchOutcome
  | JsonSettled nat

definition dropAt :: "nat \<Rightarrow> 'a list \<Rightarrow> 'a list" where
  "dropAt i xs = take i xs @ drop (Suc i) xs"

fun step :: "(typeError \<Rightarrow> jsstring) \<Rightarrow> event \<Rightarrow> client \<Rightarrow> client" where
  "step te (InputText v) s = s\<lparr>messageInput := v\<rparr>"
| "step te Submit s = handleSubmit s"
| "step te ClearChat s = clearChat s"
| "step te RemoveImage s = removeImage s"
| "step te (FileChange v files) s =
     (let s1 = s\<lparr>fileInputValue := v\<rparr> in
      case files of [] \<Rightarrow> s1 | f # fs \<Rightarrow> snd (handleImageFile f s1))"
| "step te (DragEnter hasFiles) s =
     (let s1 = s\<lparr>dragCounter := dragCounter s + 1\<rparr> in
      if hasFiles then showDropZone s1 else s1)"
| "step te DragLeave s =
     (let s1 = s\<lparr>dragCounter := dragCounter s - 1\<rparr> in
      if dragCounter s1 = 0 then hideDropZone s1 else s1)"
| "step te (Drop files) s = handleDrop files (s\<lparr>dragCounter := 0\<rparr>)"
| "step te (ReaderLoad i base64Data) s =
     (if i < length (reading s)
      then readerOnload (reading s ! i) base64Data (s\<lparr>reading := dropAt i (reading s)\<rparr>)
      else s)"
| "step te (ReaderError i) s =
     (if i < length (reading s) then readerOnerror (s\<lparr>reading := dropAt i (reading s)\<rparr>)
      else s)"
| "step te (FetchSettled i outcome) s =
     (if i < length (fetching s)
      then sendMessageFetched outcome (s\<lparr>fetching := dropAt i (fetching s)\<rparr>)
      else s)"
| "step te (JsonSettled i) s =
     (if i < length (parsing s)
      then sendMessageParsed te (parsing s ! i) (s\<lparr>parsing := dropAt i (parsing s)\<rparr>)
      else s)"

fun run :: "(typeError \<Rightarrow> jsstring) \<Rightarrow> event list \<Rightarrow> client \<Rightarrow> client" where
  "run te [] s = s"
| "run te (e # es) s = run te es (step te e s)"

text \<open>
  Modelled from the spec: the page \<^verbatim>\<open>public/index.html\<close> is not among the sources. As
  it is loaded it shows the welcome placeholder and nothing else; nothing is attached,
  typed or in flight.
\<close>

definition initial :: client where
  "initial =
     \<lparr>currentImage = None, isLoading = False, messageHistory = [], messagesArea = [Welcome],
      messageInput = [], previewImageSrc = [], fileInputValue = [],
      imagePreviewVisible = False, dropZoneVisible = False, sendBtnDisabled = False,
      dragCounter = 0, reading = [], fetching = [], parsing = []\<rparr>"

section \<open>The requests in flight\<close>

text \<open>
  What holds of the page whatever has happened: a call of \<^verbatim>\<open>sendMessage\<close> is
  suspended exactly while \<^verbatim>\<open>isLoading\<close> is set, and then it is the only one; a typing
  indicator is shown only while a call waits for \<^verbatim>\<open>fetch\<close>.
\<close>

definition oneInFlight :: "client \<Rightarrow> bool" where
  "oneInFlight s \<longleftrightarrow>
     length (fetching s) + length (parsing s) = (if isLoading s then 1 else 0)
     \<and> count_list (messagesArea s) TypingIndicator \<le> length (fetching s)"

section \<open>Example inputs\<close>

text \<open>The messages V8 gives the two \<^verbatim>\<open>TypeError\<close>s.\<close>

fun typeErrorV8 :: "typeError \<Rightarrow> jsstring" where
  "typeErrorV8 (NullRead k) =
     js ''Cannot read properties of null (reading '' @ [0x27] @ k @ [0x27] @ js '')''"
| "typeErrorV8 NotPrimitive = js ''Cannot convert object to primitive value''"

text \<open>A response of the proxy to a failed call, and one to a call that succeeded.\<close>

definition rateLimited :: response where
  "rateLimited =
     \<lparr>status = 500, jsonBody = Json (JObj [(js ''error'', JStr (js ''rate limited''))])\<rparr>"

definition summaryReply :: response where
  "summaryReply =
     \<lparr>status = 200,
      jsonBody = Json (JObj [(js ''choices'',
        JArr [JObj [(js ''message'', JObj [(js ''content'', JStr (js ''Summary: ...''))])]])])\<rparr>"

text \<open>
  A response whose content is the object \<^verbatim>\<open>{"toString": 1}\<close>, which does not convert
  to a string.
\<close>

definition opaqueReply :: response where
  "opaqueReply =
     \<lparr>status = 200,
      jsonBody = Json (JObj [(js ''choices'',
        JArr [JObj [(js ''message'',
          JObj [(js ''content'', JObj [(js ''toString'', JNum (js ''1''))])])]])])\<rparr>"

definition pdfFile :: jsFile where
  "pdfFile = \<lparr>fileType = js ''application/pdf'', fileSize = 2048\<rparr>"

definition pngFile :: jsFile where
  "pngFile = \<lparr>fileType = js ''image/png'', fileSize = 2048\<rparr>"

definition hugePng :: jsFile where
  "hugePng = \<lparr>fileType = js ''image/png'', fileSize = 10485761\<rparr>"

section \<open>The formatter writes no markup of the message\<close>

lemma inert_Nil [simp]: "inert []"
  by (simp add: inert.simps)

lemma inert_Cons: "c \<noteq> 0x3C \<Longrightarrow> c \<noteq> 0x3E \<Longrightarrow> inert (c # s) = inert s"
  by (subst inert.simps) (simp add: startsWith_def js_def)

lemma inert_strong [simp]: "inert (js ''<strong>'' @ s) = inert s"
  by (subst inert.simps) (simp add: startsWith_def js_def)

lemma inert_strong_end [simp]: "inert (js ''</strong>'' @ s) = inert s"
  by (subst inert.simps) (simp add: startsWith_def js_def)

lemma inert_br [simp]: "inert (js ''<br>'' @ s) = inert s"
  by (subst inert.simps) (simp add: startsWith_def js_def)

lemma startsWith_split: "startsWith s p \<Longrightarrow> n = length p \<Longrightarrow> s = p @ drop n s"
  unfolding startsWith_def by (metis append_take_drop_id)

lemma inert_append: "inert a \<Longrightarrow> inert b \<Longrightarrow> inert (a @ b)"
proof (induction a rule: inert.induct)
  case (1 s)
  consider (nil) "s = []"
    | (strong) "s \<noteq> []" "startsWith s (js ''<strong>'')"
    | (strong_end) "s \<noteq> []" "\<not> startsWith s (js ''<strong>'')" "startsWith s (js ''</strong>'')"
    | (br) "s \<noteq> []" "\<not> startsWith s (js ''<strong>'')" "\<not> startsWith s (js ''</strong>'')"
        "startsWith s (js ''<br>'')"
    | (char) "s \<noteq> []" "\<not> startsWith s (js ''<strong>'')" "\<not> startsWith s (js ''</strong>'')"
        "\<not> startsWith s (js ''<br>'')"
    by blast
  then show ?case
  proof cases
    case nil
    with "1.prems" show ?thesis by simp
  next
    case strong
    from strong(2) have s: "s = js ''<strong>'' @ drop 8 s"
      by (rule startsWith_split) (simp_all add: js_def)
    from "1.prems"(1) strong have "inert (drop 8 s)"
      by (subst (asm) inert.simps) simp
    with "1.IH"(1) strong "1.prems"(2) have "inert (drop 8 s @ b)" by simp
    then have "inert (js ''<strong>'' @ drop 8 s @ b)" by simp
    with s show ?thesis by (metis append_assoc)
  next
    case strong_end
    from strong_end(3) have s: "s = js ''</strong>'' @ drop 9 s"
      by (rule startsWith_split) (simp_all add: js_def)
    from "1.prems"(1) strong_end have "inert (drop 9 s)"
      by (subst (asm) inert.simps) simp
    with "1.IH"(2) strong_end "1.prems"(2) have "inert (drop 9 s @ b)" by simp
    then have "inert (js ''</strong>'' @ drop 9 s @ b)" by simp
    with s show ?thesis by (metis append_assoc)
  next
    case br
    from br(4) have s: "s = js ''<br>'' @ drop 4 s"
      by (rule startsWith_split) (simp_all add: js_def)
    from "1.prems"(1) br have "inert (drop 4 s)"
      by (subst (asm) inert.simps) simp
    with "1.IH"(3) br "1.prems"(2) have "inert (drop 4 s @ b)" by simp
    then have "inert (js ''<br>'' @ drop 4 s @ b)" by simp
    with s show ?thesis by (metis append_assoc)
  next
    case char
    from "1.prems"(1) char have "hd s \<noteq> 0x3C \<and> hd s \<noteq> 0x3E \<and> inert (tl s)"
      by (subst (asm) inert.simps) simp
    then have h: "hd s \<noteq> 0x3C" "hd s \<noteq> 0x3E" "inert (tl s)" by simp_all
    with "1.IH"(4) char "1.prems"(2) have "inert (tl s @ b)" by simp
    with h have "inert (hd s # (tl s @ b))" by (simp add: inert_Cons)
    with char(1) show ?thesis by (cases s) simp_all
  qed
qed

lemma angleFree_inert: "angleFree s \<Longrightarrow> inert s"
  by (induction s) (auto simp: angleFree_def inert_Cons)

lemma angleFree_escapeHtml: "angleFree (escapeHtml t)"
  by (induction t) (auto simp: angleFree_def escapeHtml_def escapeChar_def js_def)

lemma boldClose_parts:
  "boldClose xs = Some (cap, rest) \<Longrightarrow> set cap \<subseteq> set xs \<and> set rest \<subseteq> set xs"
  by (induction xs arbitrary: cap rest rule: boldClose.induct)
     (auto split: if_splits option.splits)

lemma inert_replaceBold: "angleFree s \<Longrightarrow> inert (replaceBold s)"
proof (induction s rule: replaceBold.induct)
  case (1 c d ds)
  from "1.prems" have cd: "c \<noteq> 0x3C" "c \<noteq> 0x3E" "angleFree (d # ds)"
    by (auto simp: angleFree_def)
  show ?case
  proof (cases "c = 0x2A \<and> d = 0x2A")
    case stars: True
    show ?thesis
    proof (cases "boldClose ds")
      case None
      have "inert (replaceBold (d # ds))"
        using "1.IH"(1) stars None cd(3) by blast
      with stars None cd show ?thesis by (simp add: inert_Cons)
    next
      case (Some p)
      obtain cap rest where p: "p = (cap, rest)" by (cases p)
      with Some boldClose_parts [of ds cap rest] "1.prems"
      have af: "angleFree cap" "angleFree rest"
        by (auto simp: angleFree_def)
      with "1.IH"(2) stars Some p have "inert (replaceBold rest)" by simp
      then have "inert (cap @ js ''</strong>'' @ replaceBold rest)"
        using af(1) by (simp add: inert_append angleFree_inert)
      with stars Some p show ?thesis by simp
    qed
  next
    case False
    have "inert (replaceBold (d # ds))"
      using "1.IH"(3) False cd(3) by blast
    with False cd show ?thesis by (auto simp add: inert_Cons)
  qed
qed (simp_all add: angleFree_inert)

lemma replaceNewlines_append:
  "replaceNewlines (a @ b) = replaceNewlines a @ replaceNewlines b"
  by (simp add: replaceNewlines_def)

lemma inert_replaceNewlines: "inert s \<Longrightarrow> inert (replaceNewlines s)"
proof (induction s rule: inert.induct)
  case (1 s)
  consider (nil) "s = []"
    | (strong) "s \<noteq> []" "startsWith s (js ''<strong>'')"
    | (strong_end) "s \<noteq> []" "\<not> startsWith s (js ''<strong>'')" "startsWith s (js ''</strong>'')"
    | (br) "s \<noteq> []" "\<not> startsWith s (js ''<strong>'')" "\<not> startsWith s (js ''</strong>'')"
        "startsWith s (js ''<br>'')"
    | (char) "s \<noteq> []" "\<not> startsWith s (js ''<strong>'')" "\<not> startsWith s (js ''</strong>'')"
        "\<not> startsWith s (js ''<br>'')"
    by blast
  then show ?case
  proof cases
    case nil
    then show ?thesis by (simp add: replaceNewlines_def)
  next
    case strong
    from strong(2) have s: "s = js ''<strong>'' @ drop 8 s"
      by (rule startsWith_split) (simp_all add: js_def)
    from "1.prems"(1) strong have "inert (drop 8 s)"
      by (subst (asm) inert.simps) simp
    with "1.IH"(1) strong have "inert (replaceNewlines (drop 8 s))" by simp
    moreover have "replaceNewlines (js ''<strong>'') = js ''<strong>''"
      by (simp add: replaceNewlines_def js_def)
    ultimately have "inert (replaceNewlines (js ''<strong>'' @ drop 8 s))"
      by (simp add: replaceNewlines_append)
    with s show ?thesis by simp
  next
    case strong_end
    from strong_end(3) have s: "s = js ''</strong>'' @ drop 9 s"
      by (rule startsWith_split) (simp_all add: js_def)
    from "1.prems"(1) strong_end have "inert (drop 9 s)"
      by (subst (asm) inert.simps) simp
    with "1.IH"(2) strong_end have "inert (replaceNewlines (drop 9 s))" by simp
    moreover have "replaceNewlines (js ''</strong>'') = js ''</strong>''"
      by (simp add: replaceNewlines_def js_def)
    ultimately have "inert (replaceNewlines (js ''</strong>'' @ drop 9 s))"
      by (simp add: replaceNewlines_append)
    with s show ?thesis by simp
  next
    case br
    from br(4) have s: "s = js ''<br>'' @ drop 4 s"
      by (rule startsWith_split) (simp_all add: js_def)
    from "1.prems"(1) br have "inert (drop 4 s)"
      by (subst (asm) inert.simps) simp
    with "1.IH"(3) br have "inert (replaceNewlines (drop 4 s))" by simp
    moreover have "replaceNewlines (js ''<br>'') = js ''<br>''"
      by (simp add: replaceNewlines_def js_def)
    ultimately have "inert (replaceNewlines (js ''<br>'' @ drop 4 s))"
      by (simp add: replaceNewlines_append)
    with s show ?thesis by simp
  next
    case char
    from "1.prems"(1) char have "hd s \<noteq> 0x3C \<and> hd s \<noteq> 0x3E \<and> inert (tl s)"
      by (subst (asm) inert.simps) simp
    then have h: "hd s \<noteq> 0x3C" "hd s \<noteq> 0x3E" "inert (tl s)" by simp_all
    with "1.IH"(4) char have t: "inert (replaceNewlines (tl s))" by simp
    from char(1) obtain c cs where s: "s = c # cs" by (cases s) auto
    show ?thesis
    proof (cases "c = 0x0A")
      case True
      with s t have "inert (js ''<br>'' @ replaceNewlines (tl s))" by simp
      with s True show ?thesis by (simp add: replaceNewlines_def)
    next
      case False
      with s t h have "inert (c # replaceNewlines (tl s))" by (simp add: inert_Cons)
      with s False show ?thesis by (simp add: replaceNewlines_def)
    qed
  qed
qed

lemma escapeHtml_append: "escapeHtml (a @ b) = escapeHtml a @ escapeHtml b"
  by (simp add: escapeHtml_def)

lemma escapeChar_keeps_span:
  "c \<noteq> 0x2A \<Longrightarrow> \<not> isLineTerminator c \<Longrightarrow> d \<in> set (escapeChar c)
   \<Longrightarrow> d \<noteq> 0x2A \<and> \<not> isLineTerminator d"
  apply (simp add: escapeChar_def js_def isLineTerminator_def split: if_splits)
  by (elim disjE; simp)+
lemma escapeHtml_keeps_span:
  "\<forall>c\<in>set a. c \<noteq> 0x2A \<and> \<not> isLineTerminator c
   \<Longrightarrow> \<forall>c\<in>set (escapeHtml a). c \<noteq> 0x2A \<and> \<not> isLineTerminator c"
proof (induction a)
  case Nil
  show ?case by (simp add: escapeHtml_def)
next
  case (Cons x a)
  then have ih: "\<forall>c\<in>set (escapeHtml a). c \<noteq> 0x2A \<and> \<not> isLineTerminator c" by simp
  from Cons.prems have x: "x \<noteq> 0x2A" "\<not> isLineTerminator x" by simp_all
  have e: "escapeHtml (x # a) = escapeChar x @ escapeHtml a" by (simp add: escapeHtml_def)
  show ?case
  proof
    fix c assume "c \<in> set (escapeHtml (x # a))"
    then have "c \<in> set (escapeChar x) \<or> c \<in> set (escapeHtml a)" by (simp add: e)
    then show "c \<noteq> 0x2A \<and> \<not> isLineTerminator c"
      using escapeChar_keeps_span [OF x] ih by blast
  qed
qed
lemma boldClose_span:
  "\<forall>c\<in>set a. c \<noteq> 0x2A \<and> \<not> isLineTerminator c
   \<Longrightarrow> boldClose (a @ 0x2A # 0x2A # r) = Some (a, r)"
proof (induction a)
  case Nil
  show ?case by simp
next
  case (Cons c a)
  then have ih: "boldClose (a @ 0x2A # 0x2A # r) = Some (a, r)" by simp
  from Cons.prems have c: "c \<noteq> 0x2A" "\<not> isLineTerminator c" by simp_all
  show ?case
  proof (cases a)
    case Nil
    with c show ?thesis by simp
  next
    case (Cons d ds)
    with ih c show ?thesis by simp
  qed
qed

lemma replaceNewlines_id: "0x0A \<notin> set x \<Longrightarrow> replaceNewlines x = x"
  by (induction x) (simp_all add: replaceNewlines_def)

lemma formatMessageText_bold:
  assumes "\<forall>c\<in>set a. c \<noteq> 0x2A \<and> \<not> isLineTerminator c"
  shows "formatMessageText (js ''**'' @ a @ js ''**'' @ r)
         = js ''<strong>'' @ escapeHtml a @ js ''</strong>'' @ formatMessageText r"
proof -
  let ?ea = "escapeHtml a" and ?er = "escapeHtml r"
  from assms have span: "\<forall>c\<in>set ?ea. c \<noteq> 0x2A \<and> \<not> isLineTerminator c"
    by (rule escapeHtml_keeps_span)
  have "escapeHtml (js ''**'' @ a @ js ''**'' @ r) = 0x2A # 0x2A # (?ea @ 0x2A # 0x2A # ?er)"
    by (simp add: escapeHtml_append) (simp add: escapeHtml_def escapeChar_def js_def)
  moreover have "replaceBold (0x2A # 0x2A # (?ea @ 0x2A # 0x2A # ?er))
                 = js ''<strong>'' @ ?ea @ js ''</strong>'' @ replaceBold ?er"
    using boldClose_span [OF span, of ?er] by simp
  moreover have "0x0A \<notin> set ?ea"
    using span by (auto simp: isLineTerminator_def)
  then have "replaceNewlines ?ea = ?ea" by (rule replaceNewlines_id)
  moreover have "replaceNewlines (js ''<strong>'') = js ''<strong>''"
    "replaceNewlines (js ''</strong>'') = js ''</strong>''"
    by (simp_all add: replaceNewlines_def js_def)
  ultimately show ?thesis
    by (simp add: formatMessageText_def replaceNewlines_append)
qed

lemma formatMessageText_newline:
  "formatMessageText (0x0A # r) = js ''<br>'' @ formatMessageText r"
proof -
  have "escapeHtml (0x0A # r) = 0x0A # escapeHtml r"
    by (simp add: escapeHtml_def escapeChar_def)
  moreover have "replaceBold (0x0A # x) = 0x0A # replaceBold x" for x
    by (cases x) simp_all
  ultimately show ?thesis
    by (simp add: formatMessageText_def replaceNewlines_def)
qed

text \<open>
  Claim C5. For every string, \<open>formatMessageText\<close> escapes first and formats the escaped
  string: the escaped string has no angle bracket left, so a tag of the message such as
  \<^verbatim>\<open><script>\<close> is text, and the result holds no angle bracket besides those of the
  tags \<^verbatim>\<open><strong>\<close>, \<^verbatim>\<open></strong>\<close> and \<^verbatim>\<open><br>\<close> that the formatter writes. A span
  between two \<^verbatim>\<open>**\<close> on one line becomes a \<^verbatim>\<open>strong\<close> element around the escaped
  span, a newline becomes \<^verbatim>\<open><br>\<close>, and \<^verbatim>\<open>**bold** <script>\<close> is formatted to
  \<^verbatim>\<open><strong>bold</strong> &lt;script&gt;\<close>.
\<close>

theorem formatMessageText_escapes_then_formats:
  "formatMessageText t = replaceNewlines (replaceBold (escapeHtml t))
   \<and> angleFree (escapeHtml t)
   \<and> inert (formatMessageText t)
   \<and> ((\<forall>c\<in>set a. c \<noteq> 0x2A \<and> \<not> isLineTerminator c) \<longrightarrow>
        formatMessageText (js ''**'' @ a @ js ''**'' @ r)
        = js ''<strong>'' @ escapeHtml a @ js ''</strong>'' @ formatMessageText r)
   \<and> formatMessageText (0x0A # r) = js ''<br>'' @ formatMessageText r
   \<and> formatMessageText (js ''**bold** <script>'') = js ''<strong>bold</strong> &lt;script&gt;''"
proof -
  have "inert (formatMessageText t)"
    unfolding formatMessageText_def
    by (intro inert_replaceNewlines inert_replaceBold angleFree_escapeHtml)
  moreover have "formatMessageText (js ''**bold** <script>'')
                 = js ''<strong>bold</strong> &lt;script&gt;''"
    by (simp add: formatMessageText_def escapeHtml_def escapeChar_def js_def
        replaceNewlines_def isLineTerminator_def)
  moreover have "formatMessageText t = replaceNewlines (replaceBold (escapeHtml t))"
    by (simp add: formatMessageText_def)
  ultimately show ?thesis
    using formatMessageText_bold [of a r] formatMessageText_newline [of r]
      angleFree_escapeHtml [of t]
    by blast
qed

theorem formatMessageText_escapes_then_formats_witness:
  "list_all (\<lambda>c. c \<noteq> 0x2A \<and> \<not> isLineTerminator c) (js ''bold'')
   \<and> formatMessageText (js ''**'' @ js ''bold'' @ js ''**'' @ js '' <script>'')
     = js ''<strong>'' @ escapeHtml (js ''bold'') @ js ''</strong>''
       @ formatMessageText (js '' <script>'')
   \<and> inert (formatMessageText (js ''**bold** <script>''))
   \<and> \<not> inert (js ''<script>'')"
proof -
  have span: "\<forall>c\<in>set (js ''bold''). c \<noteq> 0x2A \<and> \<not> isLineTerminator c"
    by (simp add: js_def isLineTerminator_def)
  have "\<not> inert (js ''<script>'')"
    by (subst inert.simps) (simp add: js_def startsWith_def)
  with span
    formatMessageText_escapes_then_formats
      [of "js ''**bold** <script>''" "js ''bold''" "js '' <script>''"]
  show ?thesis unfolding list_all_iff by blast
qed

section \<open>Submitting, attaching, dropping and clearing\<close>

lemmas image_defs = showErrorMessage_def showImagePreview_def removeImage_def
  handleImageFile_def readerOnload_def readerOnerror_def maxSize_def

lemmas send_defs = sendMessage_def removeWelcomeMessage_def createMessageElement_def
  showTypingIndicator_def removeTypingIndicator_def finallyBlock_def catchBlock_def
  showErrorMessage_def removeImage_def

lemmas run_defs = handleSubmit_def trim_def isTrimmed_def js_def initial_def send_defs
  sendMessageFetched_def sendMessageParsed_def dropAt_def ok_def Let_def
  formatMessageText_def escapeHtml_def escapeChar_def replaceNewlines_def isLineTerminator_def
  optProp_def optIndex0_def assistantContent_def

text \<open>
  Claim C2. When the trimmed text of the input is empty and no image is attached,
  \<open>handleSubmit\<close> changes nothing: the state after it is the state before it, so the
  history has no new entry and no request has been sent.
\<close>

theorem handleSubmit_empty_is_noop:
  "trim (messageInput s) = [] \<and> currentImage s = None \<longrightarrow>
     handleSubmit s = s
     \<and> step te Submit s = s
     \<and> messageHistory (handleSubmit s) = messageHistory s
     \<and> fetching (handleSubmit s) = fetching s"
  by (simp add: handleSubmit_def)

theorem handleSubmit_empty_is_noop_witness:
  "trim (messageInput (initial\<lparr>messageInput := js '' ''\<rparr>)) = []
   \<and> currentImage (initial\<lparr>messageInput := js '' ''\<rparr>) = None
   \<and> handleSubmit (initial\<lparr>messageInput := js '' ''\<rparr>) = initial\<lparr>messageInput := js '' ''\<rparr>
   \<and> fetching (handleSubmit (initial\<lparr>messageInput := js '' ''\<rparr>)) = []"
proof -
  have h: "trim (messageInput (initial\<lparr>messageInput := js '' ''\<rparr>)) = []
           \<and> currentImage (initial\<lparr>messageInput := js '' ''\<rparr>) = None"
    by (simp add: trim_def isTrimmed_def js_def initial_def)
  with handleSubmit_empty_is_noop [of "initial\<lparr>messageInput := js '' ''\<rparr>"]
  show ?thesis by (simp add: initial_def)
qed

text \<open>
  Claim C4. \<open>handleImageFile\<close> stops with \<open>InvalidFileType\<close> on a file whose type does
  not begin with \<^verbatim>\<open>image/\<close>, and otherwise with \<open>FileTooLarge\<close> on a file of more than
  \<open>10 * 1024 * 1024\<close> bytes; either way the state is the one before with the error
  bubble added, so the attached image is as it was. Any other file is handed to the
  reader, and when the reader has loaded it the attached image is that file's data and
  type, whatever was attached before.
\<close>

theorem handleImageFile_validates:
  "(\<not> startsWith (fileType f) (js ''image/'') \<longrightarrow>
      handleImageFile f s
      = (Some InvalidFileType,
         s\<lparr>messagesArea := messagesArea s
              @ [ErrorBubble (escapeHtml (js ''Please select a valid image file.''))]\<rparr>)
      \<and> currentImage (snd (handleImageFile f s)) = currentImage s)
   \<and> (startsWith (fileType f) (js ''image/'') \<and> fileSize f > 10 * 1024 * 1024 \<longrightarrow>
      handleImageFile f s
      = (Some FileTooLarge,
         s\<lparr>messagesArea := messagesArea s
              @ [ErrorBubble (escapeHtml (js ''Image size must be less than 10MB.''))]\<rparr>)
      \<and> currentImage (snd (handleImageFile f s)) = currentImage s)
   \<and> (startsWith (fileType f) (js ''image/'') \<and> fileSize f \<le> 10 * 1024 * 1024 \<longrightarrow>
      handleImageFile f s = (None, s\<lparr>reading := reading s @ [f]\<rparr>))
   \<and> currentImage (readerOnload f d s) = Some \<lparr>base64 = d, mimeType = fileType f\<rparr>
   \<and> (i < length (reading s) \<longrightarrow>
      currentImage (step te (ReaderLoad i d) s)
      = Some \<lparr>base64 = d, mimeType = fileType (reading s ! i)\<rparr>)"
  by (simp add: image_defs)

theorem handleImageFile_validates_witness:
  "fst (handleImageFile pdfFile initial) = Some InvalidFileType
   \<and> currentImage (snd (handleImageFile pdfFile initial)) = None
   \<and> fst (handleImageFile hugePng initial) = Some FileTooLarge
   \<and> currentImage (snd (handleImageFile hugePng initial)) = None
   \<and> handleImageFile pngFile initial = (None, initial\<lparr>reading := [pngFile]\<rparr>)
   \<and> currentImage (step typeErrorV8 (ReaderLoad 0 (js ''data:image/png;base64,AAAA''))
         (initial\<lparr>reading := [pngFile]\<rparr>))
     = Some \<lparr>base64 = js ''data:image/png;base64,AAAA'', mimeType = js ''image/png''\<rparr>"
proof -
  have pdf: "\<not> startsWith (fileType pdfFile) (js ''image/'')"
    by (simp add: pdfFile_def startsWith_def js_def)
  have huge: "startsWith (fileType hugePng) (js ''image/'') \<and> fileSize hugePng > 10 * 1024 * 1024"
    by (simp add: hugePng_def startsWith_def js_def)
  have png: "startsWith (fileType pngFile) (js ''image/'') \<and> fileSize pngFile \<le> 10 * 1024 * 1024"
    by (simp add: pngFile_def startsWith_def js_def)
  have rd: "0 < length (reading (initial\<lparr>reading := [pngFile]\<rparr>))"
    by simp
  from pdf handleImageFile_validates [of pdfFile initial]
  have a: "fst (handleImageFile pdfFile initial) = Some InvalidFileType
           \<and> currentImage (snd (handleImageFile pdfFile initial)) = None"
    by (simp add: initial_def)
  from huge handleImageFile_validates [of hugePng initial]
  have b: "fst (handleImageFile hugePng initial) = Some FileTooLarge
           \<and> currentImage (snd (handleImageFile hugePng initial)) = None"
    by (simp add: initial_def)
  from png handleImageFile_validates [of pngFile initial]
  have c: "handleImageFile pngFile initial = (None, initial\<lparr>reading := [pngFile]\<rparr>)"
    by (simp add: initial_def)
  from rd
    handleImageFile_validates
      [of pngFile "initial\<lparr>reading := [pngFile]\<rparr>" "js ''data:image/png;base64,AAAA''" 0
        typeErrorV8]
  have d: "currentImage (step typeErrorV8 (ReaderLoad 0 (js ''data:image/png;base64,AAAA''))
             (initial\<lparr>reading := [pngFile]\<rparr>))
           = Some \<lparr>base64 = js ''data:image/png;base64,AAAA'', mimeType = js ''image/png''\<rparr>"
    by (simp add: pngFile_def)
  from a b c d show ?thesis by simp
qed

text \<open>
  Claim C7. Whatever the state, \<open>clearChat\<close> leaves an empty history, no attached
  image, an empty input and a message area that holds the restored welcome element and
  nothing else. It asks nothing and has no failing branch.
\<close>

theorem clearChat_resets:
  "clearChat s
   = s\<lparr>currentImage := None, messageHistory := [], messagesArea := [WelcomeRestored],
       messageInput := [], previewImageSrc := [], fileInputValue := [],
       imagePreviewVisible := False\<rparr>
   \<and> messageHistory (clearChat s) = []
   \<and> currentImage (clearChat s) = None
   \<and> messageInput (clearChat s) = []
   \<and> messagesArea (clearChat s) = [WelcomeRestored]
   \<and> step te ClearChat s = clearChat s"
  by (simp add: clearChat_def removeImage_def)

theorem clearChat_resets_witness:
  "messageHistory (clearChat (readerOnload pngFile (js ''data:'') initial)) = []
   \<and> currentImage (clearChat (readerOnload pngFile (js ''data:'') initial)) = None
   \<and> messagesArea (clearChat (readerOnload pngFile (js ''data:'') initial)) = [WelcomeRestored]"
  using clearChat_resets [of "readerOnload pngFile (js ''data:'') initial"]
  by simp

text \<open>
  Claim C9. A drop whose file has a type that does not begin with \<^verbatim>\<open>image/\<close> is
  ignored without a word: \<open>handleDrop\<close> closes the drag gesture (it hides the drop zone
  overlay, and the listener resets the drag counter, as every drop does) and never
  reaches \<open>handleImageFile\<close>, so no error bubble is added and the state of the client,
  the attached image, the history, the messages shown, the input, the loading flag and
  the work in flight, is what it was. The same file picked through the file input adds
  the \<open>InvalidFileType\<close> error bubble. Only the first dropped file is looked at: the
  files after it change nothing, and no drop adds the \<open>InvalidFileType\<close> bubble.
\<close>

theorem nonimage_drop_is_ignored:
  "(\<not> startsWith (fileType f) (js ''image/'') \<longrightarrow>
      step te (Drop (f # fs)) s = s\<lparr>dropZoneVisible := False, dragCounter := 0\<rparr>
      \<and> handleDrop (f # fs) s = hideDropZone s
      \<and> currentImage (step te (Drop (f # fs)) s) = currentImage s
      \<and> isLoading (step te (Drop (f # fs)) s) = isLoading s
      \<and> messageHistory (step te (Drop (f # fs)) s) = messageHistory s
      \<and> messagesArea (step te (Drop (f # fs)) s) = messagesArea s
      \<and> messageInput (step te (Drop (f # fs)) s) = messageInput s
      \<and> previewImageSrc (step te (Drop (f # fs)) s) = previewImageSrc s
      \<and> fileInputValue (step te (Drop (f # fs)) s) = fileInputValue s
      \<and> imagePreviewVisible (step te (Drop (f # fs)) s) = imagePreviewVisible s
      \<and> sendBtnDisabled (step te (Drop (f # fs)) s) = sendBtnDisabled s
      \<and> reading (step te (Drop (f # fs)) s) = reading s
      \<and> fetching (step te (Drop (f # fs)) s) = fetching s
      \<and> parsing (step te (Drop (f # fs)) s) = parsing s
      \<and> messagesArea (step te (FileChange v (f # fs)) s)
        = messagesArea s @ [ErrorBubble (escapeHtml (js ''Please select a valid image file.''))])
   \<and> step te (Drop (g # f # fs)) s = step te (Drop [g]) s
   \<and> (messagesArea (step te (Drop files) s) = messagesArea s
      \<or> messagesArea (step te (Drop files) s)
        = messagesArea s @ [ErrorBubble (escapeHtml (js ''Image size must be less than 10MB.''))])
   \<and> escapeHtml (js ''Image size must be less than 10MB.'')
     \<noteq> escapeHtml (js ''Please select a valid image file.'')"
proof -
  have a: "\<not> startsWith (fileType f) (js ''image/'') \<longrightarrow>
      step te (Drop (f # fs)) s = s\<lparr>dropZoneVisible := False, dragCounter := 0\<rparr>
      \<and> handleDrop (f # fs) s = hideDropZone s
      \<and> messagesArea (step te (FileChange v (f # fs)) s)
        = messagesArea s @ [ErrorBubble (escapeHtml (js ''Please select a valid image file.''))]"
    by (simp add: handleDrop_def hideDropZone_def image_defs)
  have b: "step te (Drop (g # f # fs)) s = step te (Drop [g]) s"
    by (simp add: handleDrop_def)
  have c: "messagesArea (step te (Drop files) s) = messagesArea s
      \<or> messagesArea (step te (Drop files) s)
        = messagesArea s @ [ErrorBubble (escapeHtml (js ''Image size must be less than 10MB.''))]"
    by (cases files) (auto simp: handleDrop_def hideDropZone_def image_defs Let_def)
  have d: "escapeHtml (js ''Image size must be less than 10MB.'')
           \<noteq> escapeHtml (js ''Please select a valid image file.'')"
    by (simp add: escapeHtml_def escapeChar_def js_def)
  from a have e: "\<not> startsWith (fileType f) (js ''image/'') \<longrightarrow>
      currentImage (step te (Drop (f # fs)) s) = currentImage s
      \<and> isLoading (step te (Drop (f # fs)) s) = isLoading s
      \<and> messageHistory (step te (Drop (f # fs)) s) = messageHistory s
      \<and> messagesArea (step te (Drop (f # fs)) s) = messagesArea s
      \<and> messageInput (step te (Drop (f # fs)) s) = messageInput s
      \<and> previewImageSrc (step te (Drop (f # fs)) s) = previewImageSrc s
      \<and> fileInputValue (step te (Drop (f # fs)) s) = fileInputValue s
      \<and> imagePreviewVisible (step te (Drop (f # fs)) s) = imagePreviewVisible s
      \<and> sendBtnDisabled (step te (Drop (f # fs)) s) = sendBtnDisabled s
      \<and> reading (step te (Drop (f # fs)) s) = reading s
      \<and> fetching (step te (Drop (f # fs)) s) = fetching s
      \<and> parsing (step te (Drop (f # fs)) s) = parsing s"
    by (simp del: step.simps)
  from a b c d e show ?thesis by blast
qed

theorem nonimage_drop_is_ignored_witness:
  "messagesArea (run typeErrorV8 [DragEnter True, Drop [pdfFile]] initial) = [Welcome]
   \<and> currentImage (run typeErrorV8 [DragEnter True, Drop [pdfFile]] initial) = None
   \<and> reading (run typeErrorV8 [DragEnter True, Drop [pdfFile]] initial) = []
   \<and> messagesArea (step typeErrorV8 (FileChange (js ''report.pdf'') [pdfFile]) initial)
     = [Welcome, ErrorBubble (js ''Please select a valid image file.'')]
   \<and> messagesArea (step typeErrorV8 (Drop [pngFile, pdfFile]) initial) = [Welcome]"
proof -
  let ?s = "run typeErrorV8 [DragEnter True] initial"
  have pdf: "\<not> startsWith (fileType pdfFile) (js ''image/'')"
    by (simp add: pdfFile_def startsWith_def js_def)
  have png: "startsWith (fileType pngFile) (js ''image/'') \<and> fileSize pngFile \<le> maxSize"
    by (simp add: pngFile_def startsWith_def js_def maxSize_def)
  have e: "escapeHtml (js ''Please select a valid image file.'')
           = js ''Please select a valid image file.''"
    by (simp add: escapeHtml_def escapeChar_def js_def)
  have s: "messagesArea ?s = [Welcome] \<and> currentImage ?s = None \<and> reading ?s = []"
    by (simp add: initial_def showDropZone_def)
  have r: "run typeErrorV8 [DragEnter True, Drop [pdfFile]] initial
           = step typeErrorV8 (Drop [pdfFile]) ?s"
    by simp
  note t = nonimage_drop_is_ignored
      [where f = pdfFile and fs = "[]" and s = ?s and te = typeErrorV8]
  note u = nonimage_drop_is_ignored
      [where f = pdfFile and fs = "[]" and s = initial and te = typeErrorV8
        and v = "js ''report.pdf''" and g = pngFile]
  from t pdf s have a: "messagesArea (step typeErrorV8 (Drop [pdfFile]) ?s) = [Welcome]
      \<and> currentImage (step typeErrorV8 (Drop [pdfFile]) ?s) = None
      \<and> reading (step typeErrorV8 (Drop [pdfFile]) ?s) = []"
    by (simp del: step.simps run.simps)
  from u pdf e have b: "messagesArea (step typeErrorV8 (FileChange (js ''report.pdf'') [pdfFile]) initial)
      = [Welcome, ErrorBubble (js ''Please select a valid image file.'')]"
    by (simp add: initial_def del: step.simps)
  from u png have c: "messagesArea (step typeErrorV8 (Drop [pngFile, pdfFile]) initial) = [Welcome]"
    by (simp add: handleDrop_def hideDropZone_def handleImageFile_def initial_def)
  from a b c r show ?thesis by (simp del: step.simps run.simps)
qed

text \<open>
  Claim C10. When the reader of an accepted file fails, \<open>readerOnerror\<close> adds the
  \<open>ReadError\<close> error bubble and nothing else: the attached image and its preview are
  what they were before the file was handed in.
\<close>

theorem readError_keeps_image:
  "fst (handleImageFile f s) = None \<longrightarrow>
     currentImage (readerOnerror (snd (handleImageFile f s))) = currentImage s
     \<and> previewImageSrc (readerOnerror (snd (handleImageFile f s))) = previewImageSrc s
     \<and> imagePreviewVisible (readerOnerror (snd (handleImageFile f s))) = imagePreviewVisible s
     \<and> messagesArea (readerOnerror (snd (handleImageFile f s)))
       = messagesArea s @ [ErrorBubble (escapeHtml (js ''Failed to read image file.''))]
     \<and> currentImage (step te (ReaderError i) s) = currentImage s"
  by (simp add: image_defs)

theorem readError_keeps_image_witness:
  "fst (handleImageFile pngFile (readerOnload pngFile (js ''data:'') initial)) = None
   \<and> currentImage
       (readerOnerror (snd (handleImageFile pngFile (readerOnload pngFile (js ''data:'') initial))))
     = Some \<lparr>base64 = js ''data:'', mimeType = js ''image/png''\<rparr>"
proof -
  have h: "fst (handleImageFile pngFile (readerOnload pngFile (js ''data:'') initial)) = None"
    by (simp add: handleImageFile_def pngFile_def startsWith_def js_def maxSize_def)
  with readError_keeps_image [of pngFile "readerOnload pngFile (js ''data:'') initial"]
  show ?thesis by (simp add: readerOnload_def showImagePreview_def pngFile_def)
qed

section \<open>At most one call of sendMessage is suspended\<close>

lemma count_list_remove1_other: "x \<noteq> y \<Longrightarrow> count_list (remove1 x xs) y = count_list xs y"
proof (induction xs)
  case Nil
  show ?case by simp
next
  case (Cons a xs)
  then show ?case by (cases "a = x") simp_all
qed

lemma count_list_remove1_same: "count_list (remove1 x xs) x = count_list xs x - 1"
proof (induction xs)
  case Nil
  show ?case by simp
next
  case (Cons a xs)
  then show ?case by (cases "a = x") simp_all
qed

lemma length_dropAt: "i < length xs \<Longrightarrow> length (dropAt i xs) = length xs - 1"
  by (simp add: dropAt_def)

lemma oneInFlight_initial: "oneInFlight initial"
  by (simp add: oneInFlight_def initial_def)

lemma oneInFlight_sendMessage: "oneInFlight s \<Longrightarrow> oneInFlight (sendMessage t img s)"
  by (auto simp: oneInFlight_def send_defs Let_def count_list_remove1_other)

lemma oneInFlight_handleSubmit: "oneInFlight s \<Longrightarrow> oneInFlight (handleSubmit s)"
  by (simp add: handleSubmit_def Let_def oneInFlight_sendMessage)

lemma oneInFlight_clearChat: "oneInFlight s \<Longrightarrow> oneInFlight (clearChat s)"
  by (simp add: oneInFlight_def clearChat_def removeImage_def)

lemma oneInFlight_handleImageFile: "oneInFlight s \<Longrightarrow> oneInFlight (snd (handleImageFile f s))"
  by (auto simp: oneInFlight_def image_defs split: if_splits)

lemma oneInFlight_handleDrop: "oneInFlight s \<Longrightarrow> oneInFlight (handleDrop files s)"
proof -
  assume a: "oneInFlight s"
  then have "oneInFlight (hideDropZone s)" by (simp add: oneInFlight_def hideDropZone_def)
  then show ?thesis
    by (cases files) (simp_all add: handleDrop_def Let_def oneInFlight_handleImageFile)
qed

lemma oneInFlight_catchBlock:
  "fetching s = [] \<Longrightarrow> parsing s = [] \<Longrightarrow> count_list (messagesArea s) TypingIndicator \<le> 1
   \<Longrightarrow> oneInFlight (catchBlock m s)"
  by (simp add: oneInFlight_def send_defs count_list_remove1_same)

lemma oneInFlight_fetched:
  assumes "oneInFlight s" "i < length (fetching s)"
  shows "oneInFlight (sendMessageFetched outcome (s\<lparr>fetching := dropAt i (fetching s)\<rparr>))"
proof -
  from assms have f: "length (fetching s) = 1" "parsing s = []" "isLoading s"
    by (cases "parsing s"; auto simp: oneInFlight_def split: if_splits)+
  with assms(2) have d: "dropAt i (fetching s) = []"
    using length_dropAt [of i "fetching s"] by simp
  from assms(1) f have c: "count_list (messagesArea s) TypingIndicator \<le> 1"
    by (simp add: oneInFlight_def)
  show ?thesis
  proof (cases outcome)
    case (FetchRejected m)
    with d f c show ?thesis
      by (simp add: sendMessageFetched_def oneInFlight_catchBlock)
  next
    case (FetchResolved r)
    with d f c show ?thesis
      by (simp add: sendMessageFetched_def oneInFlight_def removeTypingIndicator_def
          count_list_remove1_same)
  qed
qed

lemma createMessageElement_Message:
  "createMessageElement r t u = Some el \<Longrightarrow> \<exists>x y. el = Message r x y"
  by (auto simp: createMessageElement_def Let_def split: if_splits option.splits)

lemma sendMessageParsed_cases:
  "(\<exists>m h. sendMessageParsed te r s = catchBlock m (s\<lparr>messageHistory := h\<rparr>))
   \<or> (\<exists>h x y. sendMessageParsed te r s
        = finallyBlock
            (s\<lparr>messageHistory := h,
               messagesArea := messagesArea s @ [Message Assistant x y]\<rparr>))"
proof -
  have plain: "catchBlock m s = catchBlock m (s\<lparr>messageHistory := messageHistory s\<rparr>)" for m
    by simp
  show ?thesis
  proof (cases "ok r")
    case False
    then have "\<exists>m. sendMessageParsed te r s = catchBlock m s"
      by (auto simp: sendMessageParsed_def Let_def split: option.splits)
    with plain show ?thesis by metis
  next
    case isOk: True
    show ?thesis
    proof (cases "jsonBody r")
      case (JsonRejected m)
      with isOk have "sendMessageParsed te r s = catchBlock m s"
        by (simp add: sendMessageParsed_def)
      with plain show ?thesis by metis
    next
      case (Json d)
      show ?thesis
      proof (cases "nullish d")
        case True
        with isOk Json
        have "sendMessageParsed te r s = catchBlock (te (NullRead (js ''choices''))) s"
          by (simp add: sendMessageParsed_def)
        with plain show ?thesis by metis
      next
        case notNull: False
        let ?h = "messageHistory s @ [\<lparr>role = Assistant, content = [TextPart (assistantContent d)]\<rparr>]"
        show ?thesis
        proof (cases "createMessageElement Assistant (assistantContent d) None")
          case None
          with isOk Json notNull
          have "sendMessageParsed te r s = catchBlock (te NotPrimitive) (s\<lparr>messageHistory := ?h\<rparr>)"
            by (simp add: sendMessageParsed_def Let_def)
          then show ?thesis by blast
        next
          case (Some el)
          then obtain x y where el: "el = Message Assistant x y"
            using createMessageElement_Message by blast
          with Some isOk Json notNull
          have "sendMessageParsed te r s
                = finallyBlock
                    (s\<lparr>messageHistory := ?h,
                       messagesArea := messagesArea s @ [Message Assistant x y]\<rparr>)"
            by (simp add: sendMessageParsed_def Let_def)
          then show ?thesis by blast
        qed
      qed
    qed
  qed
qed

lemma oneInFlight_parsed:
  assumes "oneInFlight s" "i < length (parsing s)"
  shows "oneInFlight (sendMessageParsed te r (s\<lparr>parsing := dropAt i (parsing s)\<rparr>))"
proof -
  from assms have f: "length (parsing s) = 1" "fetching s = []" "isLoading s"
    by (cases "fetching s"; auto simp: oneInFlight_def split: if_splits)+
  with assms(2) have d: "dropAt i (parsing s) = []"
    using length_dropAt [of i "parsing s"] by simp
  from assms(1) f have c: "count_list (messagesArea s) TypingIndicator = 0"
    by (simp add: oneInFlight_def)
  let ?s = "s\<lparr>parsing := dropAt i (parsing s)\<rparr>"
  from sendMessageParsed_cases [of te r ?s] show ?thesis
  proof (elim disjE exE)
    fix m h assume "sendMessageParsed te r ?s = catchBlock m (?s\<lparr>messageHistory := h\<rparr>)"
    with d f c show ?thesis by (simp add: oneInFlight_catchBlock)
  next
    fix h x y assume "sendMessageParsed te r ?s
        = finallyBlock
            (?s\<lparr>messageHistory := h,
               messagesArea := messagesArea ?s @ [Message Assistant x y]\<rparr>)"
    with d f c show ?thesis
      by (simp add: oneInFlight_def finallyBlock_def)
  qed
qed

lemma oneInFlight_step: "oneInFlight s \<Longrightarrow> oneInFlight (step te e s)"
proof (cases e)
  case (FileChange v files)
  assume "oneInFlight s"
  then have "oneInFlight (s\<lparr>fileInputValue := v\<rparr>)" by (simp add: oneInFlight_def)
  with FileChange show ?thesis
    by (cases files) (simp_all add: oneInFlight_handleImageFile)
next
  case (Drop files)
  assume "oneInFlight s"
  then have "oneInFlight (s\<lparr>dragCounter := 0\<rparr>)" by (simp add: oneInFlight_def)
  with Drop show ?thesis by (simp add: oneInFlight_handleDrop)
qed (auto simp: oneInFlight_handleSubmit oneInFlight_clearChat oneInFlight_fetched
      oneInFlight_parsed,
    auto simp: oneInFlight_def image_defs showDropZone_def hideDropZone_def Let_def)

lemma oneInFlight_run: "oneInFlight s \<Longrightarrow> oneInFlight (run te es s)"
  by (induction es arbitrary: s) (simp_all add: oneInFlight_step)

lemma oneInFlight_reachable: "oneInFlight (run te es initial)"
  by (rule oneInFlight_run) (rule oneInFlight_initial)

lemma fetching_sendMessageFetched [simp]:
  "fetching (sendMessageFetched outcome s) = fetching s"
  by (cases outcome) (simp_all add: sendMessageFetched_def send_defs Let_def)

lemma fetching_sendMessageParsed [simp]:
  "fetching (sendMessageParsed te r s) = fetching s"
  using sendMessageParsed_cases [of te r s]
  by (auto simp: send_defs)

lemma isLoading_sendMessageParsed [simp]:
  "\<not> isLoading (sendMessageParsed te r s)"
  using sendMessageParsed_cases [of te r s]
  by (auto simp: send_defs)

lemma indicator_gone_after_fetch:
  assumes "oneInFlight s" "i < length (fetching s)"
  shows "TypingIndicator \<notin> set (messagesArea (step te (FetchSettled i outcome) s))"
proof -
  let ?s' = "step te (FetchSettled i outcome) s"
  from assms have "length (fetching s) = 1"
    by (cases "parsing s"; auto simp: oneInFlight_def split: if_splits)
  with assms(2) have "fetching ?s' = []"
    using length_dropAt [of i "fetching s"] by simp
  moreover from assms(1) have "oneInFlight ?s'" by (rule oneInFlight_step)
  ultimately have "count_list (messagesArea ?s') TypingIndicator = 0"
    by (simp add: oneInFlight_def)
  then show ?thesis unfolding count_list_0_iff .
qed

lemma indicator_gone_after_json:
  assumes "oneInFlight s" "i < length (parsing s)"
  shows "TypingIndicator \<notin> set (messagesArea (step te (JsonSettled i) s))"
proof -
  let ?s' = "step te (JsonSettled i) s"
  from assms have "fetching s = []"
    by (cases "fetching s"; auto simp: oneInFlight_def split: if_splits)
  with assms(2) have "fetching ?s' = []" by simp
  moreover from assms(1) have "oneInFlight ?s'" by (rule oneInFlight_step)
  ultimately have "count_list (messagesArea ?s') TypingIndicator = 0"
    by (simp add: oneInFlight_def)
  then show ?thesis unfolding count_list_0_iff .
qed

text \<open>
  Claim C3. While \<^verbatim>\<open>isLoading\<close> is set, \<open>handleSubmit\<close> (and \<open>sendMessage\<close> itself)
  changes nothing: no entry is added, no request is sent, the attempt is dropped.
  Hence, whatever has happened to the page since it was loaded, at most one call is
  waiting for its response.
\<close>

theorem submit_while_loading_is_dropped:
  "(isLoading s \<longrightarrow>
      handleSubmit s = s \<and> step te Submit s = s \<and> sendMessage t img s = s
      \<and> messageHistory (handleSubmit s) = messageHistory s
      \<and> fetching (handleSubmit s) = fetching s)
   \<and> length (fetching (run te es initial)) + length (parsing (run te es initial)) \<le> 1"
proof -
  have "oneInFlight (run te es initial)" by (rule oneInFlight_reachable)
  then have "length (fetching (run te es initial)) + length (parsing (run te es initial)) \<le> 1"
    by (simp add: oneInFlight_def split: if_splits)
  then show ?thesis by (simp add: handleSubmit_def sendMessage_def Let_def)
qed

theorem submit_while_loading_is_dropped_witness:
  "isLoading (run typeErrorV8 [InputText (js ''hi''), Submit, InputText (js ''again'')] initial)
   \<and> step typeErrorV8 Submit
       (run typeErrorV8 [InputText (js ''hi''), Submit, InputText (js ''again'')] initial)
     = run typeErrorV8 [InputText (js ''hi''), Submit, InputText (js ''again'')] initial
   \<and> length (fetching
         (run typeErrorV8 [InputText (js ''hi''), Submit, InputText (js ''again'')] initial))
     = 1"
proof -
  let ?s = "run typeErrorV8 [InputText (js ''hi''), Submit, InputText (js ''again'')] initial"
  have h: "isLoading ?s" by (simp add: run_defs)
  have f: "length (fetching ?s) = 1" by (simp add: run_defs)
  from h f submit_while_loading_is_dropped [where s = ?s and te = typeErrorV8]
  show ?thesis by blast
qed

lemma catchBlock_eq:
  "catchBlock m s
   = s\<lparr>messagesArea := remove1 TypingIndicator (messagesArea s)
          @ [ErrorBubble (escapeHtml (js ''Failed to send message: '' @ m))],
       isLoading := False, sendBtnDisabled := False\<rparr>"
  by (simp add: send_defs)

lemma sendMessageParsed_failure:
  "\<not> ok r \<Longrightarrow> \<exists>reason. sendMessageParsed te r s = catchBlock reason s"
  by (auto simp: sendMessageParsed_def Let_def split: option.splits)

text \<open>
  Claim C6. A call that fails, by a rejected \<^verbatim>\<open>fetch\<close> or by a response whose status
  is not in 200 to 299, adds one error bubble whose text is
  \<^verbatim>\<open>Failed to send message: \<close> followed by the reason, and leaves the history as it
  was. The reason of a rejected \<^verbatim>\<open>fetch\<close> is its message; the reason of a failed
  response is the (non-empty) string in the \<^verbatim>\<open>error\<close> field of its body when there is
  one, and names the status when the body does not parse. Whether the call failed or
  not, \<^verbatim>\<open>isLoading\<close> is reset when the call ends, and in every state the page can
  reach no typing indicator is left once the \<^verbatim>\<open>fetch\<close> has settled.
\<close>

theorem failure_shows_error_and_cleans_up:
  "sendMessageFetched (FetchRejected m) s
   = s\<lparr>messagesArea := remove1 TypingIndicator (messagesArea s)
          @ [ErrorBubble (escapeHtml (js ''Failed to send message: '' @ m))],
       isLoading := False, sendBtnDisabled := False\<rparr>
   \<and> (\<not> ok r \<longrightarrow>
        (\<exists>reason. sendMessageParsed te r s
           = s\<lparr>messagesArea := remove1 TypingIndicator (messagesArea s)
                  @ [ErrorBubble (escapeHtml (js ''Failed to send message: '' @ reason))],
               isLoading := False, sendBtnDisabled := False\<rparr>)
        \<and> messageHistory (sendMessageParsed te r s) = messageHistory s)
   \<and> (\<not> ok r \<and> jsonBody r = Json (JObj kvs) \<and> map_of kvs (js ''error'') = Some (JStr e)
        \<and> e \<noteq> [] \<longrightarrow>
        messagesArea (sendMessageParsed te r s)
        = remove1 TypingIndicator (messagesArea s)
          @ [ErrorBubble (escapeHtml (js ''Failed to send message: '' @ e))])
   \<and> (\<not> ok r \<and> jsonBody r = JsonRejected m' \<longrightarrow>
        messagesArea (sendMessageParsed te r s)
        = remove1 TypingIndicator (messagesArea s)
          @ [ErrorBubble (escapeHtml (js ''Failed to send message: ''
               @ js ''Request failed with status '' @ showNat (status r)))])
   \<and> messageHistory (sendMessageFetched (FetchRejected m) s) = messageHistory s
   \<and> \<not> isLoading (sendMessageParsed te r s)
   \<and> (i < length (fetching (run te es initial)) \<longrightarrow>
        TypingIndicator \<notin> set (messagesArea (step te (FetchSettled i outcome) (run te es initial)))
        \<and> \<not> isLoading (step te (FetchSettled i (FetchRejected m)) (run te es initial)))
   \<and> (j < length (parsing (run te es initial)) \<longrightarrow>
        TypingIndicator \<notin> set (messagesArea (step te (JsonSettled j) (run te es initial)))
        \<and> \<not> isLoading (step te (JsonSettled j) (run te es initial)))"
proof -
  have a: "sendMessageFetched (FetchRejected m) s
   = s\<lparr>messagesArea := remove1 TypingIndicator (messagesArea s)
          @ [ErrorBubble (escapeHtml (js ''Failed to send message: '' @ m))],
       isLoading := False, sendBtnDisabled := False\<rparr>"
    by (simp add: sendMessageFetched_def catchBlock_eq)
  have b: "\<not> ok r \<longrightarrow>
        (\<exists>reason. sendMessageParsed te r s
           = s\<lparr>messagesArea := remove1 TypingIndicator (messagesArea s)
                  @ [ErrorBubble (escapeHtml (js ''Failed to send message: '' @ reason))],
               isLoading := False, sendBtnDisabled := False\<rparr>)
        \<and> messageHistory (sendMessageParsed te r s) = messageHistory s"
    using sendMessageParsed_failure [of r te s] by (auto simp: catchBlock_eq)
  have c: "\<not> ok r \<and> jsonBody r = Json (JObj kvs) \<and> map_of kvs (js ''error'') = Some (JStr e)
        \<and> e \<noteq> [] \<longrightarrow>
        messagesArea (sendMessageParsed te r s)
        = remove1 TypingIndicator (messagesArea s)
          @ [ErrorBubble (escapeHtml (js ''Failed to send message: '' @ e))]"
    by (simp add: sendMessageParsed_def Let_def catchBlock_eq)
  have d: "\<not> ok r \<and> jsonBody r = JsonRejected m' \<longrightarrow>
        messagesArea (sendMessageParsed te r s)
        = remove1 TypingIndicator (messagesArea s)
          @ [ErrorBubble (escapeHtml (js ''Failed to send message: ''
               @ js ''Request failed with status '' @ showNat (status r)))]"
    by (simp add: sendMessageParsed_def Let_def catchBlock_eq)
  have inv: "oneInFlight (run te es initial)" by (rule oneInFlight_reachable)
  have f: "i < length (fetching (run te es initial)) \<longrightarrow>
        TypingIndicator \<notin> set (messagesArea (step te (FetchSettled i outcome) (run te es initial)))
        \<and> \<not> isLoading (step te (FetchSettled i (FetchRejected m)) (run te es initial))"
    using indicator_gone_after_fetch [OF inv, of i te outcome]
    by (simp add: sendMessageFetched_def catchBlock_eq)
  have g: "j < length (parsing (run te es initial)) \<longrightarrow>
        TypingIndicator \<notin> set (messagesArea (step te (JsonSettled j) (run te es initial)))
        \<and> \<not> isLoading (step te (JsonSettled j) (run te es initial))"
    using indicator_gone_after_json [OF inv, of j te] by simp
  from a have h: "messageHistory (sendMessageFetched (FetchRejected m) s) = messageHistory s"
    by simp
  from a b c d f g h show ?thesis
    by (simp only: isLoading_sendMessageParsed not_False_eq_True simp_thms)
qed

theorem failure_shows_error_and_cleans_up_witness:
  "\<not> ok rateLimited
   \<and> messagesArea (sendMessageParsed typeErrorV8 rateLimited initial)
     = [Welcome, ErrorBubble (js ''Failed to send message: rate limited'')]
   \<and> messageHistory (sendMessageParsed typeErrorV8 rateLimited initial) = []
   \<and> TypingIndicator \<notin> set (messagesArea
         (run typeErrorV8
            [InputText (js ''hi''), Submit, FetchSettled 0 (FetchResolved rateLimited)] initial))
   \<and> \<not> isLoading
         (run typeErrorV8
            [InputText (js ''hi''), Submit, FetchSettled 0 (FetchRejected (js ''Failed to fetch''))]
            initial)
   \<and> TypingIndicator \<notin> set (messagesArea
         (run typeErrorV8
            [InputText (js ''hi''), Submit, FetchSettled 0 (FetchResolved rateLimited),
             JsonSettled 0] initial))
   \<and> \<not> isLoading
         (run typeErrorV8
            [InputText (js ''hi''), Submit, FetchSettled 0 (FetchResolved rateLimited),
             JsonSettled 0] initial)"
proof -
  let ?es1 = "[InputText (js ''hi''), Submit]"
  let ?es2 = "[InputText (js ''hi''), Submit, FetchSettled 0 (FetchResolved rateLimited)]"
  let ?kvs = "[(js ''error'', JStr (js ''rate limited''))]"
  have h1: "\<not> ok rateLimited \<and> jsonBody rateLimited = Json (JObj ?kvs)
            \<and> map_of ?kvs (js ''error'') = Some (JStr (js ''rate limited''))
            \<and> js ''rate limited'' \<noteq> []"
    by (simp add: rateLimited_def ok_def js_def)
  have h2: "0 < length (fetching (run typeErrorV8 ?es1 initial))"
    by (simp add: run_defs)
  have h3: "0 < length (parsing (run typeErrorV8 ?es2 initial))"
    by (simp add: run_defs)
  have e: "escapeHtml (js ''Failed to send message: '' @ js ''rate limited'')
           = js ''Failed to send message: rate limited''"
    by (simp add: escapeHtml_def escapeChar_def js_def)
  note t1 = failure_shows_error_and_cleans_up
      [where r = rateLimited and s = initial and te = typeErrorV8 and kvs = ?kvs
        and e = "js ''rate limited''" and es = ?es1 and i = 0
        and outcome = "FetchResolved rateLimited" and m = "js ''Failed to fetch''"]
  note t2 = failure_shows_error_and_cleans_up
      [where r = rateLimited and s = initial and te = typeErrorV8 and es = ?es2 and j = 0]
  from t1 h1 e have a: "messagesArea (sendMessageParsed typeErrorV8 rateLimited initial)
       = [Welcome, ErrorBubble (js ''Failed to send message: rate limited'')]
     \<and> messageHistory (sendMessageParsed typeErrorV8 rateLimited initial) = []"
    by (simp add: initial_def)
  from t1 h2 have b: "TypingIndicator \<notin> set (messagesArea
         (step typeErrorV8 (FetchSettled 0 (FetchResolved rateLimited))
            (run typeErrorV8 ?es1 initial)))
     \<and> \<not> isLoading (step typeErrorV8 (FetchSettled 0 (FetchRejected (js ''Failed to fetch'')))
            (run typeErrorV8 ?es1 initial))"
    by blast
  from t2 h3 have c: "TypingIndicator \<notin> set (messagesArea
         (step typeErrorV8 (JsonSettled 0) (run typeErrorV8 ?es2 initial)))
     \<and> \<not> isLoading (step typeErrorV8 (JsonSettled 0) (run typeErrorV8 ?es2 initial))"
    by blast
  from h1 a b c show ?thesis by simp
qed

section \<open>What a send cycle adds to the history\<close>

text \<open>
  Claim C1, as amended. A submit that is not dropped adds exactly one user entry to the
  history, in the same step that sends the request, and the request carries the history
  with that entry. The settling of \<^verbatim>\<open>fetch\<close> adds nothing. The settling of the body
  adds exactly one assistant entry if the status is in 200 to 299 and the body parses to
  a value other than \<^verbatim>\<open>null\<close>, and adds nothing if the status is outside 200 to 299 or
  the body does not parse.
\<close>

theorem send_cycle_history:
  "(\<not> isLoading s \<and> (trim (messageInput s) \<noteq> [] \<or> currentImage s \<noteq> None) \<longrightarrow>
      messageHistory (handleSubmit s)
      = messageHistory s
        @ [\<lparr>role = User,
            content = (if trim (messageInput s) \<noteq> []
                       then [TextPart (JStr (trim (messageInput s)))] else [])
                      @ (case currentImage s of None \<Rightarrow> []
                         | Some i \<Rightarrow> [ImageUrlPart (base64 i)])\<rparr>]
      \<and> fetching (handleSubmit s)
        = fetching s @ [\<lparr>url = js ''/api/chat'', messages = messageHistory (handleSubmit s)\<rparr>])
   \<and> messageHistory (sendMessageFetched outcome s) = messageHistory s
   \<and> (ok r \<and> jsonBody r = Json d \<and> \<not> nullish d \<longrightarrow>
      messageHistory (sendMessageParsed te r s)
      = messageHistory s @ [\<lparr>role = Assistant, content = [TextPart (assistantContent d)]\<rparr>])
   \<and> (\<not> ok r \<or> jsonBody r = JsonRejected m \<longrightarrow>
      messageHistory (sendMessageParsed te r s) = messageHistory s)"
proof -
  have a: "\<not> isLoading s \<and> (trim (messageInput s) \<noteq> [] \<or> currentImage s \<noteq> None) \<longrightarrow>
      messageHistory (handleSubmit s)
      = messageHistory s
        @ [\<lparr>role = User,
            content = (if trim (messageInput s) \<noteq> []
                       then [TextPart (JStr (trim (messageInput s)))] else [])
                      @ (case currentImage s of None \<Rightarrow> []
                         | Some i \<Rightarrow> [ImageUrlPart (base64 i)])\<rparr>]
      \<and> fetching (handleSubmit s)
        = fetching s @ [\<lparr>url = js ''/api/chat'', messages = messageHistory (handleSubmit s)\<rparr>]"
    by (auto simp: handleSubmit_def send_defs Let_def)
  have b: "messageHistory (sendMessageFetched outcome s) = messageHistory s"
    by (cases outcome) (simp_all add: sendMessageFetched_def send_defs Let_def)
  have c: "ok r \<and> jsonBody r = Json d \<and> \<not> nullish d \<longrightarrow>
      messageHistory (sendMessageParsed te r s)
      = messageHistory s @ [\<lparr>role = Assistant, content = [TextPart (assistantContent d)]\<rparr>]"
    by (simp add: sendMessageParsed_def finallyBlock_def catchBlock_eq Let_def
        split: option.splits)
  have d: "\<not> ok r \<or> jsonBody r = JsonRejected m \<longrightarrow>
      messageHistory (sendMessageParsed te r s) = messageHistory s"
    using sendMessageParsed_failure [of r te s]
    by (auto simp: sendMessageParsed_def catchBlock_eq)
  from a b c d show ?thesis by blast
qed

theorem send_cycle_history_witness:
  "\<not> isLoading (initial\<lparr>messageInput := js ''hi''\<rparr>)
   \<and> messageHistory (handleSubmit (initial\<lparr>messageInput := js ''hi''\<rparr>))
     = [\<lparr>role = User, content = [TextPart (JStr (js ''hi''))]\<rparr>]
   \<and> fetching (handleSubmit (initial\<lparr>messageInput := js ''hi''\<rparr>))
     = [\<lparr>url = js ''/api/chat'',
         messages = [\<lparr>role = User, content = [TextPart (JStr (js ''hi''))]\<rparr>]\<rparr>]
   \<and> messageHistory (sendMessageParsed typeErrorV8 summaryReply initial)
     = [\<lparr>role = Assistant, content = [TextPart (JStr (js ''Summary: ...''))]\<rparr>]
   \<and> messageHistory (sendMessageParsed typeErrorV8 rateLimited initial) = []"
proof -
  let ?s = "initial\<lparr>messageInput := js ''hi''\<rparr>"
  have h: "\<not> isLoading ?s \<and> trim (messageInput ?s) = js ''hi'' \<and> js ''hi'' \<noteq> []
           \<and> currentImage ?s = None \<and> messageHistory ?s = [] \<and> fetching ?s = []"
    by (simp add: initial_def trim_def isTrimmed_def js_def)
  have s: "ok summaryReply \<and> \<not> ok rateLimited"
    by (simp add: summaryReply_def rateLimited_def ok_def)
  have c: "assistantContent (JObj [(js ''choices'',
        JArr [JObj [(js ''message'', JObj [(js ''content'', JStr (js ''Summary: ...''))])]])])
      = JStr (js ''Summary: ...'')"
    by (simp add: assistantContent_def optProp_def optIndex0_def Let_def js_def)
  from h send_cycle_history [where s = ?s]
  have a: "messageHistory (handleSubmit ?s)
           = [\<lparr>role = User, content = [TextPart (JStr (js ''hi''))]\<rparr>]
         \<and> fetching (handleSubmit ?s)
           = [\<lparr>url = js ''/api/chat'',
               messages = [\<lparr>role = User, content = [TextPart (JStr (js ''hi''))]\<rparr>]\<rparr>]"
    by simp
  from s c
    send_cycle_history
      [where s = initial and te = typeErrorV8 and r = summaryReply
        and d = "JObj [(js ''choices'',
          JArr [JObj [(js ''message'', JObj [(js ''content'', JStr (js ''Summary: ...''))])]])]"]
  have b: "messageHistory (sendMessageParsed typeErrorV8 summaryReply initial)
     = [\<lparr>role = Assistant, content = [TextPart (JStr (js ''Summary: ...''))]\<rparr>]"
    by (simp add: summaryReply_def initial_def)
  from s send_cycle_history [where s = initial and te = typeErrorV8 and r = rateLimited]
  have d: "messageHistory (sendMessageParsed typeErrorV8 rateLimited initial) = []"
    by (simp add: rateLimited_def initial_def)
  from h a b d show ?thesis by simp
qed

text \<open>
  The claim C1 as it is written takes a response with a status in 200 to 299 for a call
  that succeeded. A response with status 200 whose body does not parse ends in the
  \<^verbatim>\<open>catch\<close> block: after the whole cycle the history holds the user entry and no
  assistant entry.
\<close>

theorem success_status_without_assistant_entry:
  "ok \<lparr>status = 200, jsonBody = JsonRejected (js ''Unexpected token'')\<rparr>
   \<and> messageHistory
       (run typeErrorV8
          [InputText (js ''hi''), Submit,
           FetchSettled 0
             (FetchResolved \<lparr>status = 200, jsonBody = JsonRejected (js ''Unexpected token'')\<rparr>),
           JsonSettled 0]
          initial)
     = [\<lparr>role = User, content = [TextPart (JStr (js ''hi''))]\<rparr>]"
  by (simp add: run_defs)

text \<open>
  Claim C8, as amended. On a response with a status in 200 to 299 whose body parses to a
  value other than \<^verbatim>\<open>null\<close>, the content of the call is \<open>assistantContent\<close> of the
  body: the \<^verbatim>\<open>content\<close> of the \<^verbatim>\<open>message\<close> of the first choice, or
  \<^verbatim>\<open>No response received.\<close> when there are no choices, no first choice, no message,
  no content, or an empty content; no error is reported for that. When the content
  converts to a string, as every string does, the call adds exactly one assistant entry
  carrying it to the history and renders it as one assistant message.
\<close>

theorem success_appends_assistant_content:
  "(ok r \<and> jsonBody r = Json d \<and> \<not> nullish d \<and> toString (assistantContent d) = Some shown \<longrightarrow>
      sendMessageParsed te r s
      = s\<lparr>messageHistory := messageHistory s
             @ [\<lparr>role = Assistant, content = [TextPart (assistantContent d)]\<rparr>],
          messagesArea := messagesArea s
             @ [Message Assistant None (Some (formatMessageText shown))],
          isLoading := False, sendBtnDisabled := False\<rparr>)
   \<and> (assistantContent d = JStr t \<longrightarrow> toString (assistantContent d) = Some t)
   \<and> (map_of kvs (js ''choices'') = Some (JArr (JObj cs # others))
      \<and> map_of cs (js ''message'') = Some (JObj ms) \<longrightarrow>
      assistantContent (JObj kvs)
      = (case map_of ms (js ''content'') of
           None \<Rightarrow> JStr (js ''No response received.'')
         | Some c \<Rightarrow> if truthy c then c else JStr (js ''No response received.'')))
   \<and> (map_of kvs (js ''choices'') = Some (JArr (JObj cs # others))
      \<and> (map_of cs (js ''message'') = None \<or> map_of cs (js ''message'') = Some JNull) \<longrightarrow>
      assistantContent (JObj kvs) = JStr (js ''No response received.''))
   \<and> (map_of kvs (js ''choices'') = None \<or> map_of kvs (js ''choices'') = Some JNull
      \<or> map_of kvs (js ''choices'') = Some (JArr []) \<longrightarrow>
      assistantContent (JObj kvs) = JStr (js ''No response received.''))
   \<and> truthy (JStr t) = (t \<noteq> [])
   \<and> truthy (assistantContent d)"
proof -
  have t: "truthy (assistantContent d)"
    by (simp add: assistantContent_def Let_def js_def)
  have a: "ok r \<and> jsonBody r = Json d \<and> \<not> nullish d \<and> toString (assistantContent d) = Some shown \<longrightarrow>
      sendMessageParsed te r s
      = s\<lparr>messageHistory := messageHistory s
             @ [\<lparr>role = Assistant, content = [TextPart (assistantContent d)]\<rparr>],
          messagesArea := messagesArea s
             @ [Message Assistant None (Some (formatMessageText shown))],
          isLoading := False, sendBtnDisabled := False\<rparr>"
    using t by (simp add: sendMessageParsed_def Let_def finallyBlock_def createMessageElement_def)
  have b: "map_of kvs (js ''choices'') = Some (JArr (JObj cs # others))
      \<and> map_of cs (js ''message'') = Some (JObj ms) \<longrightarrow>
      assistantContent (JObj kvs)
      = (case map_of ms (js ''content'') of
           None \<Rightarrow> JStr (js ''No response received.'')
         | Some c \<Rightarrow> if truthy c then c else JStr (js ''No response received.''))"
    by (simp add: assistantContent_def optProp_def optIndex0_def Let_def split: option.splits)
  have c: "map_of kvs (js ''choices'') = Some (JArr (JObj cs # others))
      \<and> (map_of cs (js ''message'') = None \<or> map_of cs (js ''message'') = Some JNull) \<longrightarrow>
      assistantContent (JObj kvs) = JStr (js ''No response received.'')"
    by (auto simp: assistantContent_def optProp_def optIndex0_def Let_def)
  have e: "map_of kvs (js ''choices'') = None \<or> map_of kvs (js ''choices'') = Some JNull
      \<or> map_of kvs (js ''choices'') = Some (JArr []) \<longrightarrow>
      assistantContent (JObj kvs) = JStr (js ''No response received.'')"
    by (auto simp: assistantContent_def optProp_def optIndex0_def Let_def)
  have f: "assistantContent d = JStr t \<longrightarrow> toString (assistantContent d) = Some t"
    by simp
  have g: "truthy (JStr t) = (t \<noteq> [])"
    by simp
  from a b c e f g t show ?thesis by blast
qed

theorem success_appends_assistant_content_witness:
  "ok summaryReply
   \<and> sendMessageParsed typeErrorV8 summaryReply initial
     = initial
         \<lparr>messageHistory :=
            [\<lparr>role = Assistant, content = [TextPart (JStr (js ''Summary: ...''))]\<rparr>],
          messagesArea := [Welcome, Message Assistant None (Some (js ''Summary: ...''))]\<rparr>
   \<and> assistantContent
       (JObj [(js ''choices'', JArr [JObj [(js ''message'', JObj [(js ''content'', JStr [])])]])])
     = JStr (js ''No response received.'')
   \<and> assistantContent (JObj [(js ''choices'', JArr [JObj []])])
     = JStr (js ''No response received.'')
   \<and> assistantContent (JObj [(js ''choices'', JArr [])]) = JStr (js ''No response received.'')"
proof -
  let ?ms = "[(js ''content'', JStr (js ''Summary: ...''))]"
  let ?cs = "[(js ''message'', JObj ?ms)]"
  let ?kvs = "[(js ''choices'', JArr [JObj ?cs])]"
  let ?msE = "[(js ''content'', JStr [])]"
  let ?csE = "[(js ''message'', JObj ?msE)]"
  let ?kvsE = "[(js ''choices'', JArr [JObj ?csE])]"
  let ?kvsN = "[(js ''choices'', JArr [JObj []])]"
  let ?kvsZ = "[(js ''choices'', JArr [])]"
  have h: "ok summaryReply \<and> jsonBody summaryReply = Json (JObj ?kvs) \<and> \<not> nullish (JObj ?kvs)"
    by (simp add: summaryReply_def ok_def)
  have k: "map_of ?kvs (js ''choices'') = Some (JArr (JObj ?cs # []))
           \<and> map_of ?cs (js ''message'') = Some (JObj ?ms)
           \<and> map_of ?ms (js ''content'') = Some (JStr (js ''Summary: ...''))
           \<and> truthy (JStr (js ''Summary: ...''))"
    by (simp add: js_def)
  have kE: "map_of ?kvsE (js ''choices'') = Some (JArr (JObj ?csE # []))
           \<and> map_of ?csE (js ''message'') = Some (JObj ?msE)
           \<and> map_of ?msE (js ''content'') = Some (JStr [])
           \<and> \<not> truthy (JStr [])"
    by (simp add: js_def)
  have kN: "map_of ?kvsN (js ''choices'') = Some (JArr (JObj [] # []))
           \<and> map_of [] (js ''message'') = (None :: jsval option)"
    by simp
  have kZ: "map_of ?kvsZ (js ''choices'') = Some (JArr [])"
    by simp
  have f: "formatMessageText (js ''Summary: ...'') = js ''Summary: ...''"
    by (simp add: formatMessageText_def escapeHtml_def escapeChar_def replaceNewlines_def js_def)
  note t = success_appends_assistant_content
      [where r = summaryReply and d = "JObj ?kvs" and te = typeErrorV8 and s = initial
        and kvs = ?kvs and cs = ?cs and others = "[]" and ms = ?ms
        and shown = "js ''Summary: ...''" and t = "js ''Summary: ...''"]
  note tE = success_appends_assistant_content
      [where kvs = ?kvsE and cs = ?csE and others = "[]" and ms = ?msE]
  note tN = success_appends_assistant_content
      [where kvs = ?kvsN and cs = "[]" and others = "[]"]
  note tZ = success_appends_assistant_content [where kvs = ?kvsZ]
  from t k have c: "assistantContent (JObj ?kvs) = JStr (js ''Summary: ...'')"
    by simp
  with t have sh: "toString (assistantContent (JObj ?kvs)) = Some (js ''Summary: ...'')"
    by simp
  from t h sh c f have a: "sendMessageParsed typeErrorV8 summaryReply initial
     = initial
         \<lparr>messageHistory :=
            [\<lparr>role = Assistant, content = [TextPart (JStr (js ''Summary: ...''))]\<rparr>],
          messagesArea := [Welcome, Message Assistant None (Some (js ''Summary: ...''))]\<rparr>"
    by (simp add: initial_def)
  from tE kE have b: "assistantContent (JObj ?kvsE) = JStr (js ''No response received.'')"
    by simp
  from tN kN have n: "assistantContent (JObj ?kvsN) = JStr (js ''No response received.'')"
    by blast
  from tZ kZ have z: "assistantContent (JObj ?kvsZ) = JStr (js ''No response received.'')"
    by blast
  from h a b n z show ?thesis by simp
qed

text \<open>
  The claim C8 as it is written covers every response with a status in 200 to 299 and
  every content. A response with status 204 has no body, and \<^verbatim>\<open>response.json()\<close>
  rejects: after the whole cycle the history holds the user entry alone, and the page
  shows the user message and an error bubble, no assistant message. A response with
  status 200 whose content is the object \<^verbatim>\<open>{"toString": 1}\<close> gets its entry into the
  history, but the content does not convert to a string: no assistant message is
  rendered, the page shows an error bubble instead.
\<close>

theorem success_status_without_assistant_message:
  "ok \<lparr>status = 204, jsonBody = JsonRejected (js ''Unexpected end of JSON input'')\<rparr>
   \<and> run typeErrorV8
       [InputText (js ''hi''), Submit,
        FetchSettled 0
          (FetchResolved
             \<lparr>status = 204, jsonBody = JsonRejected (js ''Unexpected end of JSON input'')\<rparr>),
        JsonSettled 0]
       initial
     = initial
         \<lparr>messageHistory := [\<lparr>role = User, content = [TextPart (JStr (js ''hi''))]\<rparr>],
          messagesArea :=
            [Message User None (Some (js ''hi'')),
             ErrorBubble (js ''Failed to send message: Unexpected end of JSON input'')]\<rparr>
   \<and> ok opaqueReply
   \<and> run typeErrorV8
       [InputText (js ''hi''), Submit, FetchSettled 0 (FetchResolved opaqueReply), JsonSettled 0]
       initial
     = initial
         \<lparr>messageHistory :=
            [\<lparr>role = User, content = [TextPart (JStr (js ''hi''))]\<rparr>,
             \<lparr>role = Assistant,
              content = [TextPart (JObj [(js ''toString'', JNum (js ''1''))])]\<rparr>],
          messagesArea :=
            [Message User None (Some (js ''hi'')),
             ErrorBubble
               (js ''Failed to send message: Cannot convert object to primitive value'')]\<rparr>"
  by (simp add: run_defs opaqueReply_def)

end
